theory Spec2Isabelle
  imports Complex_Main
begin

section \<open>Common data: errors, vectors, machine integers\<close>

text \<open>
  \<open>vw::vw_throw(vw::ArgumentErr() << ...)\<close> becomes the value \<open>Inl (ArgumentErr msg)\<close>.
  A finite C++ \<open>double\<close> is the \<open>real\<close> it denotes; an \<open>int\<close> is an \<open>int\<close>, and the
  theorems say where the 32-bit range is needed.
\<close>

datatype error = ArgumentErr string

type_synonym vec2 = "real \<times> real"
type_synonym vec3 = "real \<times> real \<times> real"

definition INT_MAX :: int where
  "INT_MAX = 2147483647"

definition INT_MIN :: int where
  "INT_MIN = - 2147483648"

text \<open>\<open>static_cast<int>(x)\<close> on a double discards the fractional part (rounds toward zero).\<close>

definition static_cast_int :: "real \<Rightarrow> int" where
  "static_cast_int x = (if 0 \<le> x then \<lfloor>x\<rfloor> else \<lceil>x\<rceil>)"

section \<open>Double arithmetic\<close>

text \<open>
  IEEE 754 binary64 with rounding to nearest, ties to even: a sum, difference or quotient
  of doubles is the exact result rounded to 53 significant bits, or to a multiple of
  \<open>2^-1074\<close> below \<open>2^-1022\<close>. Results beyond the finite range (overflow, division by zero,
  NaN) are not modelled; the theorems exclude them.
\<close>

definition round_half_even :: "real \<Rightarrow> int" where
  "round_half_even x =
     (let n = \<lfloor>x\<rfloor>; f = x - of_int n
      in if f < 1 / 2 then n else if 1 / 2 < f then n + 1 else if even n then n else n + 1)"

definition double_exponent :: "real \<Rightarrow> int" where
  "double_exponent x = max \<lfloor>log 2 \<bar>x\<bar>\<rfloor> (- 1022)"

definition to_double :: "real \<Rightarrow> real" where
  "to_double x =
     (if x = 0 then 0
      else (let u = 2 powr of_int (double_exponent x - 52)
            in u * of_int (round_half_even (x / u))))"

definition dadd :: "real \<Rightarrow> real \<Rightarrow> real" where
  "dadd a b = to_double (a + b)"

definition dsub :: "real \<Rightarrow> real \<Rightarrow> real" where
  "dsub a b = to_double (a - b)"

definition ddiv :: "real \<Rightarrow> real \<Rightarrow> real" where
  "ddiv a b = to_double (a / b)"

section \<open>JitterSolveCostFuns.cc: sample windows\<close>

definition NUM_XYZ_PARAMS :: int where
  "NUM_XYZ_PARAMS = 3"

definition NUM_QUAT_PARAMS :: int where
  "NUM_QUAT_PARAMS = 4"

definition bookkeeping_msg :: string where
  "bookkeeping_msg = ''Book-keeping error in interpolation. Likely image order is different than camera order.''"

text \<open>
  \<open>calcIndexBounds\<close>: the range of sample indices needed to interpolate between \<open>time1\<close>
  and \<open>time2\<close>. The two outputs are returned as a pair; the ending index is exclusive.
\<close>

definition calcIndexBounds :: "real \<Rightarrow> real \<Rightarrow> real \<Rightarrow> real \<Rightarrow> int \<Rightarrow> error + (int \<times> int)" where
  "calcIndexBounds time1 time2 t0 dt numVals =
     (let numInterpSamples = (8::int);
          index1 = static_cast_int (ddiv (dsub time1 t0) dt);
          index2 = static_cast_int (ddiv (dsub time2 t0) dt);
          begIndex = min index1 index2 - numInterpSamples div 2 + 1;
          endIndex = max index1 index2 + numInterpSamples div 2 + 1;
          begIndex = max 0 begIndex;
          endIndex = min endIndex numVals
      in if begIndex \<ge> endIndex then Inl (ArgumentErr bookkeeping_msg)
         else Inr (begIndex, endIndex))"

text \<open>
  The sample index of a time, as the source computes it: the double quotient, converted
  to \<open>int\<close>.
\<close>

definition sample_index :: "real \<Rightarrow> real \<Rightarrow> real \<Rightarrow> int" where
  "sample_index t t0 dt = static_cast_int (ddiv (dsub t t0) dt)"

text \<open>
  Where the source is defined: the division needs \<open>dt \<noteq> 0\<close>, the difference must be
  finite, and the conversion and the two additions need the indices to stay inside the
  \<open>int\<close> range.
\<close>

definition calcIndexBounds_defined :: "real \<Rightarrow> real \<Rightarrow> real \<Rightarrow> real \<Rightarrow> bool" where
  "calcIndexBounds_defined time1 time2 t0 dt \<longleftrightarrow>
     dt \<noteq> 0 \<and>
     \<bar>dsub time1 t0\<bar> < 2 ^ 1024 \<and> \<bar>dsub time2 t0\<bar> < 2 ^ 1024 \<and>
     INT_MIN + 3 \<le> sample_index time1 t0 dt \<and> sample_index time1 t0 dt \<le> INT_MAX - 5 \<and>
     INT_MIN + 3 \<le> sample_index time2 t0 dt \<and> sample_index time2 t0 dt \<le> INT_MAX - 5"

text \<open>
  The window as the specification words it: both ends from the floor of the sample index,
  minus 3 and plus 4, both clamped to \<open>[0, N]\<close>, an error when \<open>beg \<ge> end\<close>.
\<close>

definition spec_index_window :: "real \<Rightarrow> real \<Rightarrow> real \<Rightarrow> real \<Rightarrow> int \<Rightarrow> error + (int \<times> int)" where
  "spec_index_window t1 t2 t0 dt N =
     (let beg = max 0 (min N (\<lfloor>(min t1 t2 - t0) / dt\<rfloor> - 3));
          en = max 0 (min N (\<lfloor>(max t1 t2 - t0) / dt\<rfloor> + 4))
      in if beg \<ge> en then Inl (ArgumentErr bookkeeping_msg) else Inr (beg, en))"

section \<open>JitterSolveCostFuns.cc: reprojection residuals\<close>

definition g_big_pixel_value :: real where
  "g_big_pixel_value = 1000"

text \<open>
  Modelled from the spec: the constant \<open>asp::DEFAULT_CSM_DESIRED_PRECISION\<close> is declared in a
  header that is not among the sources; the specification and the comment at its use give
  the desired precision as 1e-8.
\<close>

definition DEFAULT_CSM_DESIRED_PRECISION :: real where
  "DEFAULT_CSM_DESIRED_PRECISION = 1 / 10 ^ 8"

text \<open>
  What a call into the CSM library can throw. The residuals catch
  \<open>std::exception const&\<close>, which handles the exceptions derived from \<open>std::exception\<close>
  and lets anything else pass.
\<close>

datatype thrown = StdException | OtherException

text \<open>
  The fields of \<open>UsgsAstroLsSensorModel\<close> that this code reads and writes; the rest of the
  sensor model is the extension part of the record.
\<close>

record ls_model =
  m_quaternions :: "real list"
  m_positions :: "real list"
  m_t0Quat :: real
  m_dtQuat :: real
  m_t0Ephem :: real
  m_dtEphem :: real

text \<open>
  The inner loop \<open>for coord\<close>: sample \<open>i\<close> of the flat array \<open>arr\<close> (with \<open>num\<close> values per
  sample) is overwritten with the parameter block \<open>block\<close>.
\<close>

definition set_sample :: "int \<Rightarrow> real list \<Rightarrow> int \<Rightarrow> real list \<Rightarrow> real list" where
  "set_sample num arr i block =
     fold (\<lambda>coord a. a[nat (num * i + int coord) := block ! coord]) [0..<nat num] arr"

text \<open>
  The outer loop \<open>for (qi = beg; qi < en; qi++)\<close>: sample \<open>qi\<close> is taken from
  \<open>parameters[qi + shift - beg]\<close>.
\<close>

definition set_samples :: "int \<Rightarrow> real list \<Rightarrow> int \<Rightarrow> int \<Rightarrow> int \<Rightarrow> real list list \<Rightarrow> real list" where
  "set_samples num arr beg en shift parameters =
     fold (\<lambda>qi a. set_sample num a qi (parameters ! nat (qi + shift - beg))) [beg..en - 1] arr"

text \<open>The local copy \<open>cam\<close> of \<open>LsPixelReprojErr::operator()\<close> after both update loops.\<close>

definition LsPixelReprojErr_cam ::
    "'a ls_model_scheme \<Rightarrow> int \<Rightarrow> int \<Rightarrow> int \<Rightarrow> int \<Rightarrow> real list list \<Rightarrow> 'a ls_model_scheme" where
  "LsPixelReprojErr_cam ls begQuatIndex endQuatIndex begPosIndex endPosIndex parameters =
     (let cam = ls;
          shift = 0;
          cam = cam\<lparr>m_quaternions :=
                  set_samples NUM_QUAT_PARAMS (m_quaternions cam) begQuatIndex endQuatIndex shift parameters\<rparr>;
          shift = shift + (endQuatIndex - begQuatIndex);
          cam = cam\<lparr>m_positions :=
                  set_samples NUM_XYZ_PARAMS (m_positions cam) begPosIndex endPosIndex shift parameters\<rparr>
      in cam)"

text \<open>The triangulated point \<open>P\<close>, the parameter block after the quaternions and positions.\<close>

definition LsPixelReprojErr_point :: "int \<Rightarrow> int \<Rightarrow> int \<Rightarrow> int \<Rightarrow> real list list \<Rightarrow> vec3" where
  "LsPixelReprojErr_point begQuatIndex endQuatIndex begPosIndex endPosIndex parameters =
     (let shift = (endQuatIndex - begQuatIndex) + (endPosIndex - begPosIndex);
          block = parameters ! nat shift
      in (block ! 0, block ! 1, block ! 2))"

text \<open>
  \<open>LsPixelReprojErr::operator()\<close>. The camera's \<open>groundToImage\<close> and \<open>asp::fromCsmPixel\<close>
  belong to other libraries and are parameters. The result is the returned flag with
  \<open>residuals[0]\<close> and \<open>residuals[1]\<close>, or the exception that leaves the function.
\<close>

definition LsPixelReprojErr ::
    "('a ls_model_scheme \<Rightarrow> vec3 \<Rightarrow> real \<Rightarrow> thrown + vec2) \<Rightarrow> (vec2 \<Rightarrow> vec2) \<Rightarrow>
     vec2 \<Rightarrow> real \<Rightarrow> 'a ls_model_scheme \<Rightarrow> int \<Rightarrow> int \<Rightarrow> int \<Rightarrow> int \<Rightarrow>
     real list list \<Rightarrow> thrown + (bool \<times> real \<times> real)" where
  "LsPixelReprojErr groundToImage fromCsmPixel m_observation m_weight m_ls_model
       m_begQuatIndex m_endQuatIndex m_begPosIndex m_endPosIndex parameters =
     (let cam = LsPixelReprojErr_cam m_ls_model m_begQuatIndex m_endQuatIndex
                  m_begPosIndex m_endPosIndex parameters;
          P = LsPixelReprojErr_point m_begQuatIndex m_endQuatIndex m_begPosIndex m_endPosIndex parameters;
          desired_precision = DEFAULT_CSM_DESIRED_PRECISION
      in case groundToImage cam P desired_precision of
           Inl StdException \<Rightarrow> Inr (True, g_big_pixel_value, g_big_pixel_value)
         | Inl OtherException \<Rightarrow> Inl OtherException
         | Inr imagePt \<Rightarrow>
             (let pix = fromCsmPixel imagePt
              in Inr (True, m_weight * (fst pix - fst m_observation),
                            m_weight * (snd pix - snd m_observation))))"

text \<open>
  \<open>FramePixelReprojErr::operator()\<close>. The frame sensor model \<open>'f\<close> and its methods
  \<open>setParameterValue\<close> and \<open>groundToImage\<close> belong to the CSM library and are parameters.
\<close>

definition FramePixelReprojErr_cam :: "(int \<Rightarrow> real \<Rightarrow> 'f \<Rightarrow> 'f) \<Rightarrow> 'f \<Rightarrow> real list list \<Rightarrow> 'f" where
  "FramePixelReprojErr_cam setParameterValue m_frame_model parameters =
     (let cam = m_frame_model;
          cam = fold (\<lambda>coord c. setParameterValue (int coord) (parameters ! 0 ! coord) c)
                  [0..<nat NUM_XYZ_PARAMS] cam;
          cam = fold (\<lambda>coord c. setParameterValue (int coord + NUM_XYZ_PARAMS) (parameters ! 1 ! coord) c)
                  [0..<nat NUM_QUAT_PARAMS] cam
      in cam)"

definition FramePixelReprojErr_point :: "real list list \<Rightarrow> vec3" where
  "FramePixelReprojErr_point parameters = (parameters ! 2 ! 0, parameters ! 2 ! 1, parameters ! 2 ! 2)"

definition FramePixelReprojErr ::
    "(int \<Rightarrow> real \<Rightarrow> 'f \<Rightarrow> 'f) \<Rightarrow> ('f \<Rightarrow> vec3 \<Rightarrow> real \<Rightarrow> thrown + vec2) \<Rightarrow> (vec2 \<Rightarrow> vec2) \<Rightarrow>
     vec2 \<Rightarrow> real \<Rightarrow> 'f \<Rightarrow> real list list \<Rightarrow> thrown + (bool \<times> real \<times> real)" where
  "FramePixelReprojErr setParameterValue groundToImage fromCsmPixel m_observation m_weight
       m_frame_model parameters =
     (let cam = FramePixelReprojErr_cam setParameterValue m_frame_model parameters;
          P = FramePixelReprojErr_point parameters;
          desired_precision = DEFAULT_CSM_DESIRED_PRECISION
      in case groundToImage cam P desired_precision of
           Inl StdException \<Rightarrow> Inr (True, g_big_pixel_value, g_big_pixel_value)
         | Inl OtherException \<Rightarrow> Inl OtherException
         | Inr imagePt \<Rightarrow>
             (let pix = fromCsmPixel imagePt
              in Inr (True, m_weight * (fst pix - fst m_observation),
                            m_weight * (snd pix - snd m_observation))))"

text \<open>The index computation at the head of \<open>addLsReprojectionErr\<close>.\<close>

definition addLsReprojectionErr_windows ::
    "(vec2 \<Rightarrow> vec2) \<Rightarrow> ('a ls_model_scheme \<Rightarrow> vec2 \<Rightarrow> real) \<Rightarrow> real \<Rightarrow> 'a ls_model_scheme \<Rightarrow> vec2 \<Rightarrow>
     error + (int \<times> int \<times> int \<times> int)" where
  "addLsReprojectionErr_windows toCsmPixel getImageTime max_init_reproj_error ls observation =
     (let line_extra = dadd max_init_reproj_error 5;
          imagePt1 = toCsmPixel (dsub (fst observation) 0, dsub (snd observation) line_extra);
          imagePt2 = toCsmPixel (dadd (fst observation) 0, dadd (snd observation) line_extra);
          time1 = getImageTime ls imagePt1;
          time2 = getImageTime ls imagePt2;
          numQuat = int (length (m_quaternions ls)) div NUM_QUAT_PARAMS;
          numPos = int (length (m_positions ls)) div NUM_XYZ_PARAMS
      in case calcIndexBounds time1 time2 (m_t0Quat ls) (m_dtQuat ls) numQuat of
           Inl e \<Rightarrow> Inl e
         | Inr (begQuatIndex, endQuatIndex) \<Rightarrow>
             (case calcIndexBounds time1 time2 (m_t0Ephem ls) (m_dtEphem ls) numPos of
                Inl e \<Rightarrow> Inl e
              | Inr (begPosIndex, endPosIndex) \<Rightarrow>
                  Inr (begQuatIndex, endQuatIndex, begPosIndex, endPosIndex)))"

text \<open>A small linescan state with two quaternion and two position samples, for the examples.\<close>

definition example_ls_model :: ls_model where
  "example_ls_model = \<lparr>m_quaternions = [0, 0, 0, 1, 0, 0, 0, 1], m_positions = [0, 0, 0, 1, 1, 1],
          m_t0Quat = 0, m_dtQuat = 1, m_t0Ephem = 0, m_dtEphem = 1\<rparr>"

section \<open>JitterSolveCostFuns.cc: roll and yaw regularizer\<close>

type_synonym mat3 = "vec3 \<times> vec3 \<times> vec3"

definition mat_mul :: "mat3 \<Rightarrow> mat3 \<Rightarrow> mat3" where
  "mat_mul A B =
     (case A of ((a00, a01, a02), (a10, a11, a12), (a20, a21, a22)) \<Rightarrow>
      case B of ((b00, b01, b02), (b10, b11, b12), (b20, b21, b22)) \<Rightarrow>
        ((a00 * b00 + a01 * b10 + a02 * b20, a00 * b01 + a01 * b11 + a02 * b21, a00 * b02 + a01 * b12 + a02 * b22),
         (a10 * b00 + a11 * b10 + a12 * b20, a10 * b01 + a11 * b11 + a12 * b21, a10 * b02 + a11 * b12 + a12 * b22),
         (a20 * b00 + a21 * b10 + a22 * b20, a20 * b01 + a21 * b11 + a22 * b21, a20 * b02 + a21 * b12 + a22 * b22)))"

text \<open>C's \<open>round\<close>: to the nearest integer, halfway cases away from zero.\<close>

definition c_round :: "real \<Rightarrow> real" where
  "c_round x = (if 0 \<le> x then of_int \<lfloor>x + 1 / 2\<rfloor> else of_int \<lceil>x - 1 / 2\<rceil>)"

text \<open>The fix for the +/- 180 degree ambiguity: \<open>a - 180.0 * round(a / 180.0)\<close>.\<close>

definition fix_180 :: "real \<Rightarrow> real" where
  "fix_180 a = a - 180 * c_round (a / 180)"

text \<open>
  \<open>weightedRollYawError::operator()\<close>. \<open>asp::quaternionToMatrix\<close>, \<open>vw::math::inverse\<close> (here \<open>mat_inverse\<close>)
  and \<open>rollPitchYawFromRotationMatrix\<close> (angles in degrees) are parameters; the members
  set by the constructor are arguments. The result is the returned flag with the two
  residuals.
\<close>

definition weightedRollYawError ::
    "(real list \<Rightarrow> mat3) \<Rightarrow> (mat3 \<Rightarrow> mat3) \<Rightarrow> (mat3 \<Rightarrow> real \<times> real \<times> real) \<Rightarrow>
     real \<Rightarrow> real \<Rightarrow> bool \<Rightarrow> mat3 \<Rightarrow> mat3 \<Rightarrow> mat3 \<Rightarrow> real list list \<Rightarrow> bool \<times> real \<times> real" where
  "weightedRollYawError quaternionToMatrix mat_inverse rollPitchYawFromRotationMatrix
       m_rollWeight m_yawWeight m_initial_camera_constraint m_sat2World m_rotXY m_initCam2World
       parameters =
     (let cam2world = quaternionToMatrix (parameters ! 0)
      in if m_initial_camera_constraint then
           (let cam2cam = mat_mul (mat_inverse cam2world) m_initCam2World
            in case rollPitchYawFromRotationMatrix cam2cam of (roll, pitch, yaw) \<Rightarrow>
                 (let roll = fix_180 roll;
                      pitch = fix_180 pitch;
                      yaw = fix_180 yaw
                  in (True, pitch * m_rollWeight, yaw * m_yawWeight)))
         else
           (let rollPitchYaw = mat_mul (mat_mul (mat_inverse m_sat2World) cam2world) (mat_inverse m_rotXY)
            in case rollPitchYawFromRotationMatrix rollPitchYaw of (roll, pitch, yaw) \<Rightarrow>
                 (let roll = fix_180 roll;
                      pitch = fix_180 pitch;
                      yaw = fix_180 yaw
                  in (True, roll * m_rollWeight, yaw * m_yawWeight))))"

section \<open>BundleAdjustCamera2.cc: which intrinsics to float\<close>

text \<open>
  The three output vectors \<open>float_center\<close>, \<open>float_focus\<close>, \<open>float_distortion\<close> are returned
  as a triple, in this order; a \<open>vw_throw\<close> returns the error alone. The messages are
  kept without their final newline.
\<close>

type_synonym float_flags = "bool list \<times> bool list \<times> bool list"

definition separators :: string where
  "separators = [CHR 0x5C, CHR '':'', CHR '';'', CHR '','', CHR '' '', CHR 0x09, CHR 0x0D, CHR 0x0A]"

definition replace_separators_with_space :: "string \<Rightarrow> string" where
  "replace_separators_with_space str =
     fold (\<lambda>sep s. map (\<lambda>c. if c = sep then CHR '' '' else c) s) separators str"

text \<open>The white space that \<open>is >> val\<close> skips: space, tab, newline, vertical tab, form feed, return.\<close>

definition is_space :: "char \<Rightarrow> bool" where
  "is_space c \<longleftrightarrow> c \<in> set [CHR '' '', CHR 0x09, CHR 0x0A, CHR 0x0B, CHR 0x0C, CHR 0x0D]"

text \<open>\<open>split_str_with_space\<close>: \<open>cur\<close> is the word being read.\<close>

fun split_words :: "string \<Rightarrow> string \<Rightarrow> string list" where
  "split_words cur [] = (if cur = [] then [] else [cur])"
| "split_words cur (c # cs) =
     (if is_space c then (if cur = [] then split_words [] cs else cur # split_words [] cs)
      else split_words (cur @ [c]) cs)"

definition split_str_with_space :: "string \<Rightarrow> string list" where
  "split_str_with_space str = split_words [] str"

definition isdigit :: "char \<Rightarrow> bool" where
  "isdigit c \<longleftrightarrow> c \<in> set ''0123456789''"

definition is_str_non_neg_integer :: "string \<Rightarrow> bool" where
  "is_str_non_neg_integer str \<longleftrightarrow> str \<noteq> [] \<and> list_all isdigit str"

text \<open>
  \<open>atoi\<close> on a string of decimal digits, the only strings it is called on here, as the
  GNU C library has it with a 64-bit \<open>long\<close>: \<open>(int) strtol(str, NULL, 10)\<close>. \<open>strtol\<close>
  stops at \<open>LONG_MAX\<close>, and the conversion to \<open>int\<close> keeps the low 32 bits (\<open>int32\<close>), as
  does the subtraction of 1 that follows.
\<close>

definition digit_value :: "char \<Rightarrow> int" where
  "digit_value c = int (of_char c) - 48"

definition decimal_value :: "string \<Rightarrow> int" where
  "decimal_value str = foldl (\<lambda>acc c. 10 * acc + digit_value c) 0 str"

definition LONG_MAX :: int where
  "LONG_MAX = 9223372036854775807"

definition int32 :: "int \<Rightarrow> int" where
  "int32 v = (v + 2147483648) mod 4294967296 - 2147483648"

definition atoi :: "string \<Rightarrow> int" where
  "atoi str = int32 (min (decimal_value str) LONG_MAX)"

text \<open>The zero-based sensor id of an integer option: \<open>atoi(options[it].c_str()) - 1\<close>.\<close>

definition sensor_id_of :: "string \<Rightarrow> int" where
  "sensor_id_of opt = int32 (atoi opt - 1)"

text \<open>
  The local state of the loop of \<open>fine_grained_parse\<close>: the current sensor, the ids seen,
  and the three vectors.
\<close>

type_synonym fine_state = "int \<times> int set \<times> float_flags"

text \<open>One round of the loop over the options of \<open>fine_grained_parse\<close>.\<close>

definition fine_grained_step :: "int \<Rightarrow> string \<Rightarrow> fine_state \<Rightarrow> error + fine_state" where
  "fine_grained_step num_sensors opt st =
     (case st of (sensor_id, seen_ids, float_center, float_focus, float_distortion) \<Rightarrow>
      if is_str_non_neg_integer opt then
        (let sensor_id = int32 (atoi opt - 1)
         in if sensor_id < 0 \<or> sensor_id \<ge> num_sensors then
              Inl (ArgumentErr (''Sensor id '' @ opt @ '' is out of bounds.''))
            else if sensor_id \<in> seen_ids then
              Inl (ArgumentErr (''Sensor id '' @ opt @ '' is repeated.''))
            else Inr (sensor_id, insert sensor_id seen_ids, float_center, float_focus, float_distortion))
      else if opt = ''optical_center'' then
        Inr (sensor_id, seen_ids, float_center[nat sensor_id := True], float_focus, float_distortion)
      else if opt = ''focal_length'' then
        Inr (sensor_id, seen_ids, float_center, float_focus[nat sensor_id := True], float_distortion)
      else if opt = ''other_intrinsics'' \<or> opt = ''distortion'' then
        Inr (sensor_id, seen_ids, float_center, float_focus, float_distortion[nat sensor_id := True])
      else if opt = ''all'' then
        Inr (sensor_id, seen_ids, float_center[nat sensor_id := True], float_focus[nat sensor_id := True],
             float_distortion[nat sensor_id := True])
      else if opt = ''none'' then
        Inr (sensor_id, seen_ids, float_center, float_focus, float_distortion)
      else Inl (ArgumentErr (''Found unknown option when parsing which sensor intrinsics to float: ''
                  @ opt @ ''.'')))"

text \<open>A loop over the options that a \<open>vw_throw\<close> in one round ends.\<close>

primrec for_options :: "(string \<Rightarrow> 's \<Rightarrow> error + 's) \<Rightarrow> string list \<Rightarrow> 's \<Rightarrow> error + 's" where
  "for_options step [] st = Inr st"
| "for_options step (opt # rest) st =
     (case step opt st of Inl e \<Rightarrow> Inl e | Inr st' \<Rightarrow> for_options step rest st')"

definition fine_grained_parse :: "bool \<Rightarrow> int \<Rightarrow> string list \<Rightarrow> error + float_flags" where
  "fine_grained_parse share_intrinsics_per_sensor num_sensors options =
     (if \<not> share_intrinsics_per_sensor then
        Inl (ArgumentErr ''fine_grained_parse() is only for when intrinsics are optimized per sensor.'')
      else if num_sensors \<le> 0 then
        Inl (ArgumentErr ''Expecting a positive number of sensors.'')
      else if options = [] then
        Inl (ArgumentErr ''Expecting at least one option.'')
      else
        (let flags = replicate (nat (max num_sensors 1)) False
         in if \<not> is_str_non_neg_integer (options ! 0) then
              Inl (ArgumentErr ''Expecting an integer as the first option.'')
            else
              (let sensor_id = int32 (atoi (options ! 0) - 1)
               in case for_options (fine_grained_step num_sensors) options
                         (sensor_id, {}, flags, flags, flags) of
                    Inl e \<Rightarrow> Inl e
                  | Inr (sensor_id, seen_ids, float_center, float_focus, float_distortion) \<Rightarrow>
                      Inr (float_center, float_focus, float_distortion))))"

text \<open>
  One round of the loop of \<open>coarse_grained_parse\<close>; it fills sensor 0 only. The integer
  test looks at \<open>options[0]\<close> in every round, as the source does.
\<close>

definition coarse_grained_step :: "string list \<Rightarrow> string \<Rightarrow> float_flags \<Rightarrow> error + float_flags" where
  "coarse_grained_step options opt flags =
     (case flags of (float_center, float_focus, float_distortion) \<Rightarrow>
      let sensor_id = (0::nat)
      in if is_str_non_neg_integer (options ! 0) then
           Inl (ArgumentErr
             ''When parsing intrinsics to float, expecting a string, not an integer. Check your inputs.'')
         else if opt = ''optical_center'' then
           Inr (float_center[sensor_id := True], float_focus, float_distortion)
         else if opt = ''focal_length'' then
           Inr (float_center, float_focus[sensor_id := True], float_distortion)
         else if opt = ''other_intrinsics'' \<or> opt = ''distortion'' then
           Inr (float_center, float_focus, float_distortion[sensor_id := True])
         else if opt = ''all'' then
           Inr (float_center[sensor_id := True], float_focus[sensor_id := True],
                float_distortion[sensor_id := True])
         else if opt = ''none'' then
           Inr (float_center, float_focus, float_distortion)
         else Inl (ArgumentErr (''Found unknown option when parsing which sensor intrinsics to float: ''
                     @ opt @ ''.'')))"

text \<open>The last loop of \<open>coarse_grained_parse\<close>: every sensor gets the flag of sensor 0.\<close>

definition distribute_flag :: "int \<Rightarrow> bool list \<Rightarrow> bool list" where
  "distribute_flag num_sensors v = fold (\<lambda>sensor_id w. w[sensor_id := w ! 0]) [0..<nat num_sensors] v"

definition coarse_grained_parse :: "int \<Rightarrow> string list \<Rightarrow> error + float_flags" where
  "coarse_grained_parse num_sensors options =
     (if num_sensors < 0 then Inl (ArgumentErr ''Cameras were not parsed correctly.'')
      else
        (let flags = replicate (nat (max num_sensors 1)) False
         in case for_options (coarse_grained_step options) options (flags, flags, flags) of
              Inl e \<Rightarrow> Inl e
            | Inr (float_center, float_focus, float_distortion) \<Rightarrow>
                Inr (distribute_flag num_sensors float_center,
                     distribute_flag num_sensors float_focus,
                     distribute_flag num_sensors float_distortion)))"

text \<open>\<open>boost::to_lower\<close> on the letters A to Z.\<close>

definition to_lower_char :: "char \<Rightarrow> char" where
  "to_lower_char c =
     (case map_of (zip ''ABCDEFGHIJKLMNOPQRSTUVWXYZ'' ''abcdefghijklmnopqrstuvwxyz'') c of
        None \<Rightarrow> c | Some l \<Rightarrow> l)"

definition to_lower :: "string \<Rightarrow> string" where
  "to_lower str = map to_lower_char str"

text \<open>
  The part of \<open>load_intrinsics_options\<close> that turns the string of intrinsics to float into
  the three vectors, for \<open>solve_intrinsics = true\<close>: lower case, the abbreviations
  \<open>all\<close> and \<open>none\<close>, separators, splitting, and the choice between the two parsers.
\<close>

definition load_intrinsics_to_float :: "bool \<Rightarrow> int \<Rightarrow> string \<Rightarrow> error + float_flags" where
  "load_intrinsics_to_float share_intrinsics_per_sensor num_sensors intrinsics_to_float_str =
     (let str = to_lower intrinsics_to_float_str;
          str = (if str = [] \<or> str = ''all'' then ''focal_length optical_center other_intrinsics''
                 else str);
          str = (if str = ''none'' then [] else str);
          str = replace_separators_with_space str;
          float_options = split_str_with_space str
      in if float_options \<noteq> [] \<and> is_str_non_neg_integer (float_options ! 0) then
           fine_grained_parse share_intrinsics_per_sensor num_sensors float_options
         else coarse_grained_parse num_sensors float_options)"

section \<open>stereo_tri.cc: the centre of the point cloud\<close>

text \<open>\<open>Vector3()\<close>, the zero vector, marks an invalid point.\<close>

definition vec3_zero :: vec3 where
  "vec3_zero = (0, 0, 0)"

definition vec3_coord :: "vec3 \<Rightarrow> nat \<Rightarrow> real" where
  "vec3_coord p i = (case p of (x, y, z) \<Rightarrow> if i = 0 then x else if i = 1 then y else z)"

text \<open>
  The inner part of the loop of \<open>find_approx_points_median\<close>: the sorted values \<open>V\<close> of
  coordinate \<open>i\<close> and the entry \<open>V[points.size()/2]\<close>.
\<close>

definition median_coord :: "vec3 list \<Rightarrow> nat \<Rightarrow> real" where
  "median_coord points i =
     (let V = sort (map (\<lambda>p. vec3_coord p i) points) in V ! (length points div 2))"

text \<open>
  \<open>find_approx_points_median\<close>. The three calls of \<open>rand()\<close> return \<open>rand_value 0\<close>,
  \<open>rand_value 1\<close>, \<open>rand_value 2\<close>, each between 0 and \<open>RAND_MAX\<close>.
\<close>

definition find_approx_points_median :: "(nat \<Rightarrow> int) \<Rightarrow> int \<Rightarrow> vec3 list \<Rightarrow> vec3" where
  "find_approx_points_median rand_value RAND_MAX points =
     (if points = [] then vec3_zero
      else
        (let median = (\<lambda>i. let m = median_coord points i
                            in m + m * (1 / 10 ^ 10) * of_int (rand_value i) / of_int RAND_MAX)
         in (median 0, median 1, median 2)))"

text \<open>
  \<open>BBox2i\<close> of the Vision Workbench library: a box is its minimum corner and its
  exclusive maximum corner; \<open>crop\<close> intersects.
\<close>

type_synonym bbox = "(int \<times> int) \<times> (int \<times> int)"

definition BBox2i :: "int \<Rightarrow> int \<Rightarrow> int \<Rightarrow> int \<Rightarrow> bbox" where
  "BBox2i x y w h = ((x, y), (x + w, y + h))"

definition bbox_crop :: "bbox \<Rightarrow> bbox \<Rightarrow> bbox" where
  "bbox_crop box other =
     (case box of ((x0, y0), (x1, y1)) \<Rightarrow>
      case other of ((a0, b0), (a1, b1)) \<Rightarrow>
        ((max x0 a0, max y0 b0), (min x1 a1, min y1 b1)))"

text \<open>
  The point cloud image: its size and its pixels, each a \<open>Vector6\<close> made of the point and
  the error vector.
\<close>

record point_cloud =
  pc_cols :: int
  pc_rows :: int
  pc_pixel :: "int \<Rightarrow> int \<Rightarrow> vec3 \<times> vec3"

definition bounding_box :: "point_cloud \<Rightarrow> bbox" where
  "bounding_box cloud = BBox2i 0 0 (pc_cols cloud) (pc_rows cloud)"

text \<open>
  The body of the innermost loop for tile \<open>(x, y)\<close>: the valid points of the cropped tile, in
  the order in which they are pushed back (\<open>px\<close> outside, \<open>py\<close> inside).
\<close>

definition tile_points :: "int \<times> int \<Rightarrow> bbox \<Rightarrow> point_cloud \<Rightarrow> int \<times> int \<Rightarrow> vec3 list" where
  "tile_points tile_size trans_crop_win cloud tile =
     (case tile of (x, y) \<Rightarrow>
      let box = BBox2i (x * fst tile_size) (y * snd tile_size) (fst tile_size) (snd tile_size);
          box = bbox_crop box (bounding_box cloud);
          box = bbox_crop box trans_crop_win
      in case box of ((min_x, min_y), (max_x, max_y)) \<Rightarrow>
           concat (map (\<lambda>px. concat (map (\<lambda>py.
               (let xyz = fst (pc_pixel cloud (min_x + px) (min_y + py))
                in if xyz = vec3_zero then [] else [xyz]))
             [0..max_y - min_y - 1]))
           [0..max_x - min_x - 1]))"

text \<open>
  The tiles that the three loops \<open>r\<close>, \<open>x\<close>, \<open>y\<close> reach, in order: the boundary of the square of
  radius \<open>r\<close> around the central tile, inside the grid of \<open>numx\<close> by \<open>numy\<close> tiles.
\<close>

definition spiral_tiles :: "int \<Rightarrow> int \<Rightarrow> (int \<times> int) list" where
  "spiral_tiles numx numy =
     concat (map (\<lambda>r. concat (map (\<lambda>x. concat (map (\<lambda>y.
         if x \<noteq> numx div 2 - r \<and> x \<noteq> numx div 2 + r \<and> y \<noteq> numy div 2 - r \<and> y \<noteq> numy div 2 + r
         then []
         else if x < 0 \<or> y < 0 \<or> x \<ge> numx \<or> y \<ge> numy then []
         else [(x, y)])
       [numy div 2 - r..numy div 2 + r]))
       [numx div 2 - r..numx div 2 + r]))
       [0..max (numx div 2) (numy div 2)])"

text \<open>
  The accumulation over the tiles with its early return: the points handed to
  \<open>find_approx_points_median\<close>.
\<close>

primrec accumulate_tiles :: "('t \<Rightarrow> vec3 list) \<Rightarrow> 't list \<Rightarrow> vec3 list \<Rightarrow> vec3 list" where
  "accumulate_tiles points_of [] points = points"
| "accumulate_tiles points_of (t # ts) points =
     (let points = points @ points_of t
      in if length points > 100 then points else accumulate_tiles points_of ts points)"

definition visited_tiles :: "int \<times> int \<Rightarrow> point_cloud \<Rightarrow> (int \<times> int) list" where
  "visited_tiles tile_size cloud =
     (let numx = \<lceil>real_of_int (pc_cols cloud) / real_of_int (fst tile_size)\<rceil>;
          numy = \<lceil>real_of_int (pc_rows cloud) / real_of_int (snd tile_size)\<rceil>
      in spiral_tiles numx numy)"

definition spiral_points :: "int \<times> int \<Rightarrow> bbox \<Rightarrow> point_cloud \<Rightarrow> vec3 list" where
  "spiral_points tile_size trans_crop_win cloud =
     accumulate_tiles (tile_points tile_size trans_crop_win cloud) (visited_tiles tile_size cloud) []"

text \<open>
  \<open>find_point_cloud_center\<close>; \<open>stereo_settings().trans_crop_win\<close> is an argument. Both
  returns of the source hand the accumulated points to \<open>find_approx_points_median\<close>.
\<close>

definition find_point_cloud_center ::
    "(nat \<Rightarrow> int) \<Rightarrow> int \<Rightarrow> int \<times> int \<Rightarrow> bbox \<Rightarrow> point_cloud \<Rightarrow> vec3" where
  "find_point_cloud_center rand_value RAND_MAX tile_size trans_crop_win cloud =
     find_approx_points_median rand_value RAND_MAX (spiral_points tile_size trans_crop_win cloud)"

text \<open>
  Example clouds of 20 by 10 pixels, for tiles of 10 by 10: in \<open>example_cloud\<close> the right
  tile holds 100 valid points, 50 at \<open>(1, 1, 1)\<close> and 50 at \<open>(3, 3, 3)\<close>, and the left tile
  a single valid point; \<open>empty_cloud\<close> has no valid point.
\<close>

definition example_cloud :: point_cloud where
  "example_cloud = \<lparr>pc_cols = 20, pc_rows = 10,
     pc_pixel = (\<lambda>x y. if 10 \<le> x then (if y < 5 then ((1, 1, 1), vec3_zero) else ((3, 3, 3), vec3_zero))
                        else if x = 0 \<and> y = 0 then ((1, 1, 1), vec3_zero)
                        else (vec3_zero, vec3_zero))\<rparr>"

definition empty_cloud :: point_cloud where
  "empty_cloud = \<lparr>pc_cols = 20, pc_rows = 10, pc_pixel = (\<lambda>x y. (vec3_zero, vec3_zero))\<rparr>"

text \<open>One column of the right tile of \<open>example_cloud\<close>.\<close>

definition example_column :: "vec3 list" where
  "example_column = [(1, 1, 1), (1, 1, 1), (1, 1, 1), (1, 1, 1), (1, 1, 1),
                     (3, 3, 3), (3, 3, 3), (3, 3, 3), (3, 3, 3), (3, 3, 3)]"

section \<open>BundleAdjustCamera.cc: control network, rigid transform, GCP check\<close>

text \<open>
  The control network is the list of its control points. Of a control point the code
  uses the type, the position and \<open>size()\<close>, the number of its measures.
\<close>

datatype ControlPointType = GroundControlPoint | TiePoint | PointFromDem

record control_point =
  cp_type :: ControlPointType
  cp_position :: vec3
  cp_size :: nat

text \<open>
  A camera model pointer: \<open>dynamic_cast<vw::camera::PinholeModel*>\<close> gives a pinhole camera
  or \<open>NULL\<close>.
\<close>

datatype ('p, 'o) camera_model = PinholeModel 'p | OtherModel 'o

text \<open>The test \<open>pincam != NULL\<close>.\<close>

definition is_pinhole :: "('p, 'o) camera_model \<Rightarrow> bool" where
  "is_pinhole c = (case c of PinholeModel pincam \<Rightarrow> True | OtherModel other \<Rightarrow> False)"

definition vec3_add :: "vec3 \<Rightarrow> vec3 \<Rightarrow> vec3" where
  "vec3_add u v = (case u of (a, b, c) \<Rightarrow> case v of (x, y, z) \<Rightarrow> (a + x, b + y, c + z))"

definition vec3_sub :: "vec3 \<Rightarrow> vec3 \<Rightarrow> vec3" where
  "vec3_sub u v = (case u of (a, b, c) \<Rightarrow> case v of (x, y, z) \<Rightarrow> (a - x, b - y, c - z))"

definition vec3_div :: "vec3 \<Rightarrow> real \<Rightarrow> vec3" where
  "vec3_div u s = (case u of (a, b, c) \<Rightarrow> (a / s, b / s, c / s))"

definition norm_2 :: "vec3 \<Rightarrow> real" where
  "norm_2 u = (case u of (a, b, c) \<Rightarrow> sqrt (a * a + b * b + c * c))"

definition scalar_mat :: "real \<Rightarrow> mat3 \<Rightarrow> mat3" where
  "scalar_mat s A =
     (case A of ((a00, a01, a02), (a10, a11, a12), (a20, a21, a22)) \<Rightarrow>
        ((s * a00, s * a01, s * a02), (s * a10, s * a11, s * a12), (s * a20, s * a21, s * a22)))"

definition mat_vec :: "mat3 \<Rightarrow> vec3 \<Rightarrow> vec3" where
  "mat_vec A v =
     (case A of ((a00, a01, a02), (a10, a11, a12), (a20, a21, a22)) \<Rightarrow>
      case v of (x, y, z) \<Rightarrow>
        (a00 * x + a01 * y + a02 * z, a10 * x + a11 * y + a12 * z, a20 * x + a21 * y + a22 * z))"

text \<open>
  The first loop of \<open>apply_rigid_transform\<close>: every camera must be a pinhole camera and is
  transformed in place by \<open>PinholeModel::apply_transform\<close> (here \<open>f\<close>); \<open>VW_ASSERT\<close> throws
  at the first camera that is not, and the cameras before it stay transformed.
\<close>

primrec transform_cameras ::
    "('p \<Rightarrow> 'p) \<Rightarrow> ('p, 'o) camera_model list \<Rightarrow> error option \<times> ('p, 'o) camera_model list" where
  "transform_cameras f [] = (None, [])"
| "transform_cameras f (c # cs) =
     (case c of
        PinholeModel pincam \<Rightarrow>
          (case transform_cameras f cs of (e, cs') \<Rightarrow> (e, PinholeModel (f pincam) # cs'))
      | OtherModel other \<Rightarrow> (Some (ArgumentErr ''A pinhole camera expected.''), c # cs))"

text \<open>The body of the second loop: ground control points are skipped.\<close>

definition transform_control_point ::
    "mat3 \<Rightarrow> vec3 \<Rightarrow> real \<Rightarrow> 'a control_point_scheme \<Rightarrow> 'a control_point_scheme" where
  "transform_control_point rotation translation scale cp =
     (if cp_type cp = GroundControlPoint then cp
      else
        (let position = cp_position cp;
             new_position = vec3_add (mat_vec (scalar_mat scale rotation) position) translation
         in cp\<lparr>cp_position := new_position\<rparr>))"

text \<open>
  \<open>apply_rigid_transform\<close>: the error thrown, if any, with the cameras and the control
  network as the call leaves them.
\<close>

definition apply_rigid_transform ::
    "(mat3 \<Rightarrow> vec3 \<Rightarrow> real \<Rightarrow> 'p \<Rightarrow> 'p) \<Rightarrow> mat3 \<Rightarrow> vec3 \<Rightarrow> real \<Rightarrow>
     ('p, 'o) camera_model list \<Rightarrow> 'a control_point_scheme list \<Rightarrow>
     error option \<times> ('p, 'o) camera_model list \<times> 'a control_point_scheme list" where
  "apply_rigid_transform pinhole_apply_transform rotation translation scale camera_models cnet =
     (case transform_cameras (pinhole_apply_transform rotation translation scale) camera_models of
        (Some e, cams) \<Rightarrow> (Some e, cams, cnet)
      | (None, cams) \<Rightarrow> (None, cams, map (transform_control_point rotation translation scale) cnet))"

text \<open>
  \<open>check_gcp_dists\<close>. \<open>vw::ba::triangulate_control_point\<close> is a parameter: for the copy of
  a control point it returns the error \<open>ans\<close> and the position the copy gets. The first
  loop counts the points of both kinds.
\<close>

definition count_gcp_ip ::
    "('a control_point_scheme \<Rightarrow> 'c \<Rightarrow> real \<Rightarrow> real \<Rightarrow> real \<times> vec3) \<Rightarrow> 'c \<Rightarrow> real \<Rightarrow>
     'a control_point_scheme list \<Rightarrow> real \<times> real" where
  "count_gcp_ip triangulate_control_point camera_models forced_triangulation_distance cnet =
     fold (\<lambda>cp (gcp_count, ip_count).
             if cp_position cp = vec3_zero \<or> cp_size cp \<le> 1 then (gcp_count, ip_count)
             else if cp_type cp = GroundControlPoint then (gcp_count + 1, ip_count)
             else
               (let minimum_angle = 0
                in case triangulate_control_point cp camera_models minimum_angle
                          forced_triangulation_distance of
                     (ans, new_position) \<Rightarrow>
                       if ans < 0 \<or> new_position = vec3_zero then (gcp_count, ip_count)
                       else (gcp_count, ip_count + 1)))
       cnet (0, 0)"

text \<open>The second loop: the two means, with \<open>gcp_count\<close> as the loop leaves it.\<close>

definition mean_gcp_ip ::
    "('a control_point_scheme \<Rightarrow> 'c \<Rightarrow> real \<Rightarrow> real \<Rightarrow> real \<times> vec3) \<Rightarrow> 'c \<Rightarrow> real \<Rightarrow>
     'a control_point_scheme list \<Rightarrow> real \<Rightarrow> real \<Rightarrow> vec3 \<times> vec3 \<times> real" where
  "mean_gcp_ip triangulate_control_point camera_models forced_triangulation_distance cnet
       gcp_count ip_count =
     fold (\<lambda>cp (mean_gcp, mean_ip, gcp_count).
             if cp_position cp = vec3_zero \<or> cp_size cp \<le> 1 then (mean_gcp, mean_ip, gcp_count)
             else if cp_type cp = GroundControlPoint then
               (vec3_add mean_gcp (vec3_div (cp_position cp) gcp_count), mean_ip, gcp_count + 1)
             else
               (let minimum_angle = 0
                in case triangulate_control_point cp camera_models minimum_angle
                          forced_triangulation_distance of
                     (ans, new_position) \<Rightarrow>
                       if new_position = vec3_zero \<or> ans < 0 then (mean_gcp, mean_ip, gcp_count)
                       else (mean_gcp, vec3_add mean_ip (vec3_div new_position ip_count), gcp_count)))
       cnet (vec3_zero, vec3_zero, gcp_count)"

text \<open>The result says whether the warning is printed; the function throws nothing itself.\<close>

definition check_gcp_dists ::
    "('a control_point_scheme \<Rightarrow> 'c \<Rightarrow> real \<Rightarrow> real \<Rightarrow> real \<times> vec3) \<Rightarrow> 'c \<Rightarrow>
     'a control_point_scheme list \<Rightarrow> real \<Rightarrow> bool" where
  "check_gcp_dists triangulate_control_point camera_models cnet forced_triangulation_distance =
     (case count_gcp_ip triangulate_control_point camera_models forced_triangulation_distance cnet of
        (gcp_count, ip_count) \<Rightarrow>
          if ip_count = 0 \<or> gcp_count = 0 then False
          else
            (case mean_gcp_ip triangulate_control_point camera_models forced_triangulation_distance
                    cnet gcp_count ip_count of
               (mean_gcp, mean_ip, gcp_count') \<Rightarrow>
                 (let dist = norm_2 (vec3_sub mean_ip mean_gcp) in dist > 100000)))"

text \<open>The centroid of a list of points, as the specification means it.\<close>

definition centroid :: "vec3 list \<Rightarrow> vec3" where
  "centroid ps = vec3_div (foldr vec3_add ps vec3_zero) (real (length ps))"

text \<open>
  An example network: two ground control points at \<open>(600000, 0, 0)\<close> and one tie point
  that triangulates to \<open>(450000, 0, 0)\<close>, each with two measures; and a triangulation
  that returns the stored position with error 0.
\<close>

definition example_gcp :: control_point where
  "example_gcp = \<lparr>cp_type = GroundControlPoint, cp_position = (600000, 0, 0), cp_size = 2\<rparr>"

definition example_tie_point :: control_point where
  "example_tie_point = \<lparr>cp_type = TiePoint, cp_position = (450000, 0, 0), cp_size = 2\<rparr>"

definition example_cnet :: "control_point list" where
  "example_cnet = [example_gcp, example_gcp, example_tie_point]"

definition stored_position :: "control_point \<Rightarrow> unit \<Rightarrow> real \<Rightarrow> real \<Rightarrow> real \<times> vec3" where
  "stored_position cp camera_models minimum_angle forced_triangulation_distance = (0, cp_position cp)"

definition identity_mat3 :: mat3 where
  "identity_mat3 = ((1, 0, 0), (0, 1, 0), (0, 0, 1))"

section \<open>BundleAdjustCamera2.cc: initial transform of the cameras\<close>

type_synonym vec4 = "real \<times> real \<times> real \<times> real"
type_synonym mat4 = "vec4 \<times> vec4 \<times> vec4 \<times> vec4"

text \<open>
  \<open>vw::math::det\<close> of the Vision Workbench library is the determinant; for the 4 by 4
  transform it is written as the expansion along the last row.
\<close>

definition det3 :: "mat3 \<Rightarrow> real" where
  "det3 A =
     (case A of ((a, b, c), (d, e, f), (g, h, i)) \<Rightarrow>
        a * (e * i - f * h) - b * (d * i - f * g) + c * (d * h - e * g))"

definition det4 :: "mat4 \<Rightarrow> real" where
  "det4 M =
     (case M of ((a0, a1, a2, a3), (b0, b1, b2, b3), (c0, c1, c2, c3), (d0, d1, d2, d3)) \<Rightarrow>
        - d0 * det3 ((a1, a2, a3), (b1, b2, b3), (c1, c2, c3))
        + d1 * det3 ((a0, a2, a3), (b0, b2, b3), (c0, c2, c3))
        - d2 * det3 ((a0, a1, a3), (b0, b1, b3), (c0, c1, c3))
        + d3 * det3 ((a0, a1, a2), (b0, b1, b2), (c0, c1, c2)))"

text \<open>The 3 by 3 linear part \<open>R\<close> of a 4 by 4 transform, and its last row.\<close>

definition linear_part :: "mat4 \<Rightarrow> mat3" where
  "linear_part M =
     (case M of ((a0, a1, a2, a3), (b0, b1, b2, b3), (c0, c1, c2, c3), (d0, d1, d2, d3)) \<Rightarrow>
        ((a0, a1, a2), (b0, b1, b2), (c0, c1, c2)))"

definition last_row :: "mat4 \<Rightarrow> vec4" where
  "last_row M = (case M of (r0, r1, r2, r3) \<Rightarrow> r3)"

text \<open>The options that \<open>init_cams\<close> reads.\<close>

record 'cam ba_options =
  camera_models :: "'cam list"
  input_prefix :: string
  image_files :: "string list"
  camera_files :: "string list"
  stereo_session :: string

text \<open>
  What \<open>init_cams\<close> calls and the sources do not hold: the methods of the parameter storage
  \<open>'ps\<close>, reading the adjustments of a previous run, applying the transform to the
  parameters and building the corrected cameras (the two that can throw return the
  error, if any, with the storage as they leave it), the double that \<open>vw::math::det\<close>
  computes for a matrix, and the double that \<open>pow\<close> of the C library returns for a base that
  is not negative.
\<close>

record ('ps, 'cam) ba_calls =
  init_cams_as_zero :: "'ps \<Rightarrow> 'ps"
  num_cameras :: "'ps \<Rightarrow> nat"
  put_adjustments_in_params :: "string \<Rightarrow> string list \<Rightarrow> string list \<Rightarrow> 'ps \<Rightarrow> error option \<times> 'ps"
  apply_transform_to_params :: "mat4 \<Rightarrow> 'ps \<Rightarrow> 'cam list \<Rightarrow> error option \<times> 'ps"
  create_corrected_cameras :: "'cam list \<Rightarrow> 'ps \<Rightarrow> 'cam list"
  vw_det :: "mat4 \<Rightarrow> real"
  libm_pow :: "real \<Rightarrow> real \<Rightarrow> real"

text \<open>
  \<open>pow(x, y)\<close> on finite doubles: for a negative \<open>x\<close> and a \<open>y\<close> that is not an integer the C
  library returns NaN, here \<open>None\<close>.
\<close>

definition c_pow :: "(real \<Rightarrow> real \<Rightarrow> real) \<Rightarrow> real \<Rightarrow> real \<Rightarrow> real option" where
  "c_pow pow_fn x y = (if x < 0 \<and> of_int \<lfloor>y\<rfloor> \<noteq> y then None else Some (pow_fn x y))"

text \<open>
  The test \<open>std::abs(scale - 1.0) > 1e-6\<close> on \<open>scale = pow(vw::math::det(initial_transform),
  1.0/3.0)\<close>, with the constants \<open>1.0/3.0\<close> and \<open>1e-6\<close> as the doubles they are; a comparison
  with NaN is false.
\<close>

definition scale_differs_from_one :: "('ps, 'cam) ba_calls \<Rightarrow> mat4 \<Rightarrow> bool" where
  "scale_differs_from_one calls initial_transform =
     (case c_pow (libm_pow calls) (vw_det calls initial_transform) (ddiv 1 3) of
        None \<Rightarrow> False
      | Some scale \<Rightarrow> \<bar>dsub scale 1\<bar> > to_double (1 / 10 ^ 6))"

definition csm_scale_msg :: string where
  "csm_scale_msg = ''CSM camera models do not support applying a transform with a scale.''"

text \<open>
  \<open>init_cams\<close>: the returned flag or the error thrown, with \<open>param_storage\<close> and
  \<open>new_cam_models\<close> as the call leaves them. The count in the first message is left out.
\<close>

definition init_cams ::
    "('ps, 'cam) ba_calls \<Rightarrow> 'cam ba_options \<Rightarrow> 'ps \<Rightarrow> string \<Rightarrow> mat4 \<Rightarrow> 'cam list \<Rightarrow>
     (error + bool) \<times> 'ps \<times> 'cam list" where
  "init_cams calls opt param_storage initial_transform_file initial_transform new_cam_models =
     (let cameras_changed = False;
          param_storage = init_cams_as_zero calls param_storage
      in if num_cameras calls param_storage \<noteq> length (camera_models opt) then
           (Inl (ArgumentErr ''Expecting a different number of cameras.''), param_storage, new_cam_models)
         else
           (case (if input_prefix opt \<noteq> [] then
                    (case put_adjustments_in_params calls (input_prefix opt) (image_files opt)
                            (camera_files opt) param_storage of
                       (e, ps) \<Rightarrow> (e, ps, True))
                  else (None, param_storage, cameras_changed)) of
              (Some e, param_storage, cameras_changed) \<Rightarrow> (Inl e, param_storage, new_cam_models)
            | (None, param_storage, cameras_changed) \<Rightarrow>
                if initial_transform_file \<noteq> [] then
                  (if stereo_session opt = ''csm'' \<and> scale_differs_from_one calls initial_transform then
                     (Inl (ArgumentErr csm_scale_msg), param_storage, new_cam_models)
                   else
                     (case apply_transform_to_params calls initial_transform param_storage
                             (camera_models opt) of
                        (Some e, param_storage) \<Rightarrow> (Inl e, param_storage, new_cam_models)
                      | (None, param_storage) \<Rightarrow>
                          (Inr True, param_storage,
                           create_corrected_cameras calls (camera_models opt) param_storage)))
                else
                  (Inr cameras_changed, param_storage,
                   create_corrected_cameras calls (camera_models opt) param_storage)))"

text \<open>
  The state of the parameters when the initial transform is looked at: zeroed, then the
  adjustments of a previous run, if any.
\<close>

definition params_before_transform :: "('ps, 'cam) ba_calls \<Rightarrow> 'cam ba_options \<Rightarrow> 'ps \<Rightarrow> error option \<times> 'ps" where
  "params_before_transform calls opt param_storage =
     (if input_prefix opt \<noteq> [] then
        put_adjustments_in_params calls (input_prefix opt) (image_files opt) (camera_files opt)
          (init_cams_as_zero calls param_storage)
      else (None, init_cams_as_zero calls param_storage))"

text \<open>
  Example: a storage that is the list of its camera adjustments, calls that do not throw,
  the exact determinant and a correctly rounded \<open>pow\<close>; the transforms that scale by \<open>s\<close>,
  and the one that scales by 2 and mirrors the first axis.
\<close>

definition example_calls :: "(real list, unit) ba_calls" where
  "example_calls = \<lparr>init_cams_as_zero = map (\<lambda>x. 0), num_cameras = length,
     put_adjustments_in_params = (\<lambda>prefix images cameras ps. (None, ps)),
     apply_transform_to_params = (\<lambda>M ps cams. (None, map (\<lambda>x. x + 1) ps)),
     create_corrected_cameras = (\<lambda>cams ps. cams), vw_det = det4,
     libm_pow = (\<lambda>x y. to_double (x powr y))\<rparr>"

definition example_options :: "unit ba_options" where
  "example_options = \<lparr>camera_models = [(), ()], input_prefix = [], image_files = [], camera_files = [],
     stereo_session = ''csm''\<rparr>"

definition scale_by :: "real \<Rightarrow> mat4" where
  "scale_by s = ((s, 0, 0, 0), (0, s, 0, 0), (0, 0, s, 0), (0, 0, 0, 1))"


section \<open>Double arithmetic: results\<close>

lemma round_half_even_of_int: "round_half_even (of_int z) = z"
  by (simp add: round_half_even_def)

lemma double_exponent_eq:
  assumes "2 powr of_int e \<le> \<bar>x\<bar>" "\<bar>x\<bar> < 2 powr of_int (e + 1)" "- 1022 \<le> e"
  shows "double_exponent x = e"
proof -
  have pos: "0 < \<bar>x\<bar>" using assms(1) by (smt (verit) powr_gt_zero)
  have "of_int e \<le> log 2 \<bar>x\<bar>"
    using assms(1) pos by (simp add: le_log_iff)
  moreover have "log 2 \<bar>x\<bar> < of_int (e + 1)"
    using assms(2) pos by (simp add: log_less_iff)
  ultimately have "\<lfloor>log 2 \<bar>x\<bar>\<rfloor> = e" by linarith
  then show ?thesis using assms(3) by (simp add: double_exponent_def)
qed

lemma to_double_eval:
  assumes "2 powr of_int e \<le> \<bar>x\<bar>" "\<bar>x\<bar> < 2 powr of_int (e + 1)" "- 1022 \<le> e"
  shows "to_double x = 2 powr of_int (e - 52) * of_int (round_half_even (x / 2 powr of_int (e - 52)))"
proof -
  have "x \<noteq> 0" using assms(1) by (smt (verit) powr_gt_zero)
  then show ?thesis
    by (simp add: to_double_def double_exponent_eq [OF assms] Let_def)
qed

lemma to_double_exact:
  assumes "x = of_int m * 2 powr of_int k" "\<bar>m\<bar> < 2 ^ 53" "- 1074 \<le> k"
  shows "to_double x = x"
proof (cases "x = 0")
  case True then show ?thesis by (simp add: to_double_def)
next
  case False
  then have m0: "m \<noteq> 0" using assms(1) by auto
  define e where "e = double_exponent x"
  define j where "j = k - (e - 52)"
  have ax: "\<bar>x\<bar> = of_int \<bar>m\<bar> * 2 powr of_int k"
    by (simp add: assms(1) abs_mult)
  have j0: "0 \<le> j"
  proof (cases "\<lfloor>log 2 \<bar>x\<bar>\<rfloor> \<le> - 1022")
    case True
    then have "e = - 1022" by (simp add: e_def double_exponent_def)
    then show ?thesis using assms(3) by (simp add: j_def)
  next
    case F: False
    then have ee: "e = \<lfloor>log 2 \<bar>x\<bar>\<rfloor>" by (simp add: e_def double_exponent_def)
    have "of_int e \<le> log 2 \<bar>x\<bar>" unfolding ee by simp
    then have lo: "2 powr of_int e \<le> \<bar>x\<bar>"
      using False by (simp add: le_log_iff)
    have "of_int \<bar>m\<bar> < (2::real) ^ 53"
      using assms(2) by (metis of_int_less_iff of_int_numeral of_int_power)
    then have "\<bar>x\<bar> < 2 ^ 53 * 2 powr of_int k"
      unfolding ax by (simp add: mult_strict_right_mono)
    also have "\<dots> = 2 powr of_int (53 + k)"
      by (simp add: powr_add powr_realpow [symmetric])
    finally have "2 powr of_int e < (2::real) powr of_int (53 + k)"
      using lo by linarith
    then have "e < 53 + k" by simp
    then show ?thesis by (simp add: j_def)
  qed
  have kj: "of_int k = of_int (e - 52) + (of_int j :: real)" by (simp add: j_def)
  have pj: "2 powr (of_int j :: real) = 2 ^ nat j"
    using j0 by (simp add: powr_realpow [symmetric])
  have q: "x / 2 powr of_int (e - 52) = of_int (m * 2 ^ nat j)"
    unfolding assms(1) kj powr_add pj by simp
  have "to_double x = 2 powr of_int (e - 52) * of_int (round_half_even (x / 2 powr of_int (e - 52)))"
    using False by (simp add: to_double_def Let_def e_def)
  also have "\<dots> = 2 powr of_int (e - 52) * of_int (m * 2 ^ nat j)"
    unfolding q round_half_even_of_int ..
  also have "\<dots> = x"
    unfolding assms(1) kj powr_add pj by simp
  finally show ?thesis .
qed

lemma to_double_of_int: "\<bar>m\<bar> < 2 ^ 53 \<Longrightarrow> to_double (of_int m) = of_int m"
  using to_double_exact [of "of_int m" m 0] by simp

lemma to_double_one_third: "to_double (1 / 3) = 6004799503160661 / 2 ^ 54"
proof -
  have ev: "to_double (1 / 3) = 2 powr of_int (- 2 - 52) * of_int (round_half_even ((1 / 3) / 2 powr of_int (- 2 - 52)))"
    by (rule to_double_eval) (simp_all add: powr_minus powr_realpow [symmetric] field_simps)
  have p: "(2::real) powr of_int (- 2 - 52) = 1 / 2 ^ 54"
    by (simp add: powr_minus field_simps)
  have "\<lfloor>(1 / 3 :: real) / (1 / 2 ^ 54)\<rfloor> = 6004799503160661"
    by (rule floor_unique) simp_all
  then have r: "round_half_even ((1 / 3) / (1 / 2 ^ 54)) = 6004799503160661"
    by (simp add: round_half_even_def Let_def)
  show ?thesis unfolding ev p r by simp
qed

lemma to_double_1e_6: "to_double (1 / 10 ^ 6) = 4722366482869645 / 2 ^ 72"
proof -
  have ev: "to_double (1 / 10 ^ 6) = 2 powr of_int (- 20 - 52) * of_int (round_half_even ((1 / 10 ^ 6) / 2 powr of_int (- 20 - 52)))"
    by (rule to_double_eval) (simp_all add: powr_minus powr_realpow [symmetric] field_simps)
  have p: "(2::real) powr of_int (- 20 - 52) = 1 / 2 ^ 72"
    by (simp add: powr_minus field_simps)
  have "\<lfloor>(1 / 10 ^ 6 :: real) / (1 / 2 ^ 72)\<rfloor> = 4722366482869645"
    by (rule floor_unique) simp_all
  then have r: "round_half_even ((1 / 10 ^ 6) / (1 / 2 ^ 72)) = 4722366482869645"
    by (simp add: round_half_even_def Let_def)
  show ?thesis unfolding ev p r by simp
qed

lemma static_cast_int_of_int: "static_cast_int (of_int z) = z"
  by (simp add: static_cast_int_def)

text \<open>Where difference and quotient are integers below \<open>2^53\<close>, the sample index is exact.\<close>

lemma sample_index_exact:
  assumes "t - t0 = of_int a" "\<bar>a\<bar> < 2 ^ 53" "of_int a / dt = of_int b" "\<bar>b\<bar> < 2 ^ 53"
  shows "sample_index t t0 dt = b"
proof -
  have "dsub t t0 = of_int a"
    unfolding dsub_def assms(1) using assms(2) by (rule to_double_of_int)
  moreover have "ddiv (of_int a) dt = of_int b"
    unfolding ddiv_def assms(3) using assms(4) by (rule to_double_of_int)
  ultimately show ?thesis
    by (simp add: sample_index_def static_cast_int_of_int)
qed

section \<open>Sample windows: results\<close>

lemma calcIndexBounds_indices:
  "calcIndexBounds time1 time2 t0 dt numVals =
     (if max 0 (min (sample_index time1 t0 dt) (sample_index time2 t0 dt) - 3)
           \<ge> min (max (sample_index time1 t0 dt) (sample_index time2 t0 dt) + 5) numVals
      then Inl (ArgumentErr bookkeeping_msg)
      else Inr (max 0 (min (sample_index time1 t0 dt) (sample_index time2 t0 dt) - 3),
                min (max (sample_index time1 t0 dt) (sample_index time2 t0 dt) + 5) numVals))"
  by (simp add: calcIndexBounds_def sample_index_def Let_def add.commute)

lemma window_members:
  fixes lo hi n j :: int
  shows "(max 0 (lo - 3) \<le> j \<and> j < min (hi + 5) n) = (lo - 3 \<le> j \<and> j \<le> hi + 4 \<and> 0 \<le> j \<and> j < n)"
  by auto

lemma window_empty:
  fixes lo hi n :: int
  shows "(max 0 (lo - 3) \<ge> min (hi + 5) n) = (\<not> (\<exists>j. lo - 3 \<le> j \<and> j \<le> hi + 4 \<and> 0 \<le> j \<and> j < n))"
proof
  assume "max 0 (lo - 3) \<ge> min (hi + 5) n"
  then show "\<not> (\<exists>j. lo - 3 \<le> j \<and> j \<le> hi + 4 \<and> 0 \<le> j \<and> j < n)" by auto
next
  assume a: "\<not> (\<exists>j. lo - 3 \<le> j \<and> j \<le> hi + 4 \<and> 0 \<le> j \<and> j < n)"
  show "max 0 (lo - 3) \<ge> min (hi + 5) n"
  proof (rule ccontr)
    assume "\<not> max 0 (lo - 3) \<ge> min (hi + 5) n"
    then have "lo - 3 \<le> max 0 (lo - 3) \<and> max 0 (lo - 3) \<le> hi + 4 \<and> 0 \<le> max 0 (lo - 3)
                 \<and> max 0 (lo - 3) < n"
      by auto
    with a show False by blast
  qed
qed

text \<open>
  Claim C1, as the code has it. With \<open>lo\<close> and \<open>hi\<close> the smaller and the larger of the two
  sample indices, each the double quotient \<open>(t - t0) / dt\<close> converted to \<open>int\<close> (truncated
  toward zero), \<open>calcIndexBounds\<close> returns \<open>begIndex = max 0 (lo - 3)\<close> and the exclusive
  \<open>endIndex = min (hi + 5) numVals\<close>: the window holds exactly the samples \<open>j\<close> that exist
  (\<open>0 \<le> j < numVals\<close>) with \<open>lo - 3 \<le> j \<le> hi + 4\<close>, and the book-keeping error is raised
  exactly when there is no such sample.
\<close>

theorem calcIndexBounds_window:
  assumes "calcIndexBounds_defined time1 time2 t0 dt"
  shows "(let lo = min (sample_index time1 t0 dt) (sample_index time2 t0 dt);
              hi = max (sample_index time1 t0 dt) (sample_index time2 t0 dt)
          in calcIndexBounds time1 time2 t0 dt numVals =
               (if max 0 (lo - 3) \<ge> min (hi + 5) numVals then Inl (ArgumentErr bookkeeping_msg)
                else Inr (max 0 (lo - 3), min (hi + 5) numVals)) \<and>
             (\<forall>j. (max 0 (lo - 3) \<le> j \<and> j < min (hi + 5) numVals)
                    = (lo - 3 \<le> j \<and> j \<le> hi + 4 \<and> 0 \<le> j \<and> j < numVals)) \<and>
             ((\<exists>e. calcIndexBounds time1 time2 t0 dt numVals = Inl e)
                = (\<not> (\<exists>j. lo - 3 \<le> j \<and> j \<le> hi + 4 \<and> 0 \<le> j \<and> j < numVals))))"
proof -
  define lo where "lo = min (sample_index time1 t0 dt) (sample_index time2 t0 dt)"
  define hi where "hi = max (sample_index time1 t0 dt) (sample_index time2 t0 dt)"
  have c: "calcIndexBounds time1 time2 t0 dt numVals =
               (if max 0 (lo - 3) \<ge> min (hi + 5) numVals then Inl (ArgumentErr bookkeeping_msg)
                else Inr (max 0 (lo - 3), min (hi + 5) numVals))"
    unfolding lo_def hi_def by (rule calcIndexBounds_indices)
  have e: "(\<exists>e. calcIndexBounds time1 time2 t0 dt numVals = Inl e)
             = (max 0 (lo - 3) \<ge> min (hi + 5) numVals)"
    unfolding c by simp
  show ?thesis
    unfolding Let_def lo_def [symmetric] hi_def [symmetric]
    using c e window_members [of lo _ hi numVals] window_empty [of hi numVals lo] by simp
qed

theorem calcIndexBounds_window_witness:
  "calcIndexBounds_defined 10 12 0 2 \<and> calcIndexBounds 10 12 0 2 100 = Inr (2, 11)"
proof -
  have i1: "sample_index 10 0 2 = 5"
    by (rule sample_index_exact [where a = 10]) simp_all
  have i2: "sample_index 12 0 2 = 6"
    by (rule sample_index_exact [where a = 12]) simp_all
  have d1: "dsub 10 0 = 10" and d2: "dsub 12 0 = 12"
    using to_double_of_int [of 10] to_double_of_int [of 12] by (simp_all add: dsub_def)
  have d: "calcIndexBounds_defined 10 12 0 2"
    by (simp add: calcIndexBounds_defined_def i1 i2 d1 d2 INT_MIN_def INT_MAX_def)
  from calcIndexBounds_window [OF d, of 100] d show ?thesis
    by (simp add: i1 i2 Let_def)
qed

text \<open>
  At \<open>time1 = time2 = -4\<close>, \<open>t0 = 0\<close>, \<open>dt = 1\<close> and 100 samples (all operations exact) the
  formula of the specification gives \<open>beg = 0\<close> and \<open>end = 0\<close>, hence a fatal error,
  whether its end is read as inclusive or as exclusive; the code returns the window
  \<open>[0, 1)\<close>, the sample 0, and raises nothing.
\<close>

theorem calcIndexBounds_counterexample:
  "calcIndexBounds (- 4) (- 4) 0 1 100 = Inr (0, 1) \<and>
   spec_index_window (- 4) (- 4) 0 1 100 = Inl (ArgumentErr bookkeeping_msg)"
proof -
  have i: "sample_index (- 4) 0 1 = - 4"
    by (rule sample_index_exact [where a = "- 4"]) simp_all
  show ?thesis
    by (simp add: calcIndexBounds_indices i spec_index_window_def)
qed

text \<open>
  More of the difference: for 100 samples and both times at \<open>t0\<close> the exclusive end is 5,
  where the formula of the specification gives 4; with four samples the last sample of
  the window is 3, where the specification clamps to 4; with one sample the window is
  the sample 0, first and last sample equal, and no error is raised.
\<close>

lemma calcIndexBounds_at_t0:
  "calcIndexBounds 0 0 0 1 100 = Inr (0, 5) \<and> spec_index_window 0 0 0 1 100 = Inr (0, 4) \<and>
   calcIndexBounds 0 0 0 1 4 = Inr (0, 4) \<and> calcIndexBounds 0 0 0 1 1 = Inr (0, 1)"
proof -
  have i: "sample_index 0 0 1 = 0"
    by (rule sample_index_exact [where a = 0]) simp_all
  show ?thesis
    by (simp add: calcIndexBounds_indices i spec_index_window_def)
qed

text \<open>
  The index is the truncated double quotient, not the floor of the exact one: for the
  doubles written 5.2, 1.1 and 0.01 the difference rounds to \<open>2308094809027379 / 2^49\<close>
  and the quotient to \<open>7212796278210559 / 2^44\<close>, just below 410, so the index is 409 and
  the window \<open>[406, 414)\<close>.
\<close>

lemma calcIndexBounds_rounding:
  "calcIndexBounds (5854679515581645 / 2 ^ 50) (5854679515581645 / 2 ^ 50)
      (2476979795053773 / 2 ^ 51) (5764607523034235 / 2 ^ 59) 1000 = Inr (406, 414)"
proof -
  have s: "dsub (5854679515581645 / 2 ^ 50) (2476979795053773 / 2 ^ 51) = 2308094809027379 / 2 ^ 49"
  proof -
    have x: "(5854679515581645 / 2 ^ 50 - 2476979795053773 / 2 ^ 51 :: real) = 9232379236109517 / 2 ^ 51"
      by simp
    have ev: "to_double (9232379236109517 / 2 ^ 51)
        = 2 powr of_int (2 - 52) * of_int (round_half_even ((9232379236109517 / 2 ^ 51) / 2 powr of_int (2 - 52)))"
      by (rule to_double_eval) (simp_all add: powr_minus powr_realpow [symmetric] field_simps)
    have p: "(2::real) powr of_int (2 - 52) = 1 / 2 ^ 50"
      by (simp add: powr_minus field_simps)
    have f: "\<lfloor>(9232379236109517 / 2 ^ 51 :: real) / (1 / 2 ^ 50)\<rfloor> = 4616189618054758"
      by (rule floor_unique) simp_all
    have r: "round_half_even ((9232379236109517 / 2 ^ 51) / (1 / 2 ^ 50)) = 4616189618054758"
      unfolding round_half_even_def Let_def f by simp
    show ?thesis unfolding dsub_def x ev p r by simp
  qed
  have q: "ddiv (2308094809027379 / 2 ^ 49) (5764607523034235 / 2 ^ 59) = 7212796278210559 / 2 ^ 44"
  proof -
    have x: "((2308094809027379 / 2 ^ 49) / (5764607523034235 / 2 ^ 59) :: real)
               = 2363489084444036096 / 5764607523034235"
      by simp
    have ev: "to_double (2363489084444036096 / 5764607523034235)
        = 2 powr of_int (8 - 52) * of_int (round_half_even ((2363489084444036096 / 5764607523034235) / 2 powr of_int (8 - 52)))"
      by (rule to_double_eval) (simp_all add: powr_minus powr_realpow [symmetric] field_simps)
    have p: "(2::real) powr of_int (8 - 52) = 1 / 2 ^ 44"
      by (simp add: powr_minus field_simps)
    have f: "\<lfloor>(2363489084444036096 / 5764607523034235 :: real) / (1 / 2 ^ 44)\<rfloor> = 7212796278210559"
      by (rule floor_unique) simp_all
    have r: "round_half_even ((2363489084444036096 / 5764607523034235) / (1 / 2 ^ 44)) = 7212796278210559"
      unfolding round_half_even_def Let_def f by simp
    show ?thesis unfolding ddiv_def x ev p r by simp
  qed
  have "\<lfloor>7212796278210559 / 2 ^ 44 :: real\<rfloor> = 409"
    by (rule floor_unique) simp_all
  then have i: "sample_index (5854679515581645 / 2 ^ 50) (2476979795053773 / 2 ^ 51)
                  (5764607523034235 / 2 ^ 59) = 409"
    unfolding sample_index_def s q by (simp add: static_cast_int_def)
  show ?thesis
    unfolding calcIndexBounds_indices i by simp
qed

text \<open>\<open>addLsReprojectionErr\<close> takes both windows from \<open>calcIndexBounds\<close>, on the same two times.\<close>

lemma addLsReprojectionErr_windows_calc:
  assumes "addLsReprojectionErr_windows toCsmPixel getImageTime max_err ls observation
             = Inr (begQ, endQ, begP, endP)"
  shows "\<exists>time1 time2.
           calcIndexBounds time1 time2 (m_t0Quat ls) (m_dtQuat ls)
             (int (length (m_quaternions ls)) div 4) = Inr (begQ, endQ) \<and>
           calcIndexBounds time1 time2 (m_t0Ephem ls) (m_dtEphem ls)
             (int (length (m_positions ls)) div 3) = Inr (begP, endP)"
  using assms
  by (auto simp: addLsReprojectionErr_windows_def Let_def NUM_QUAT_PARAMS_def NUM_XYZ_PARAMS_def
           split: sum.splits prod.splits)

section \<open>Reprojection residuals: results\<close>

text \<open>
  What the linescan residual does to its copy of the camera: a sample outside the window
  is not overwritten, so a change of it in the camera model reaches \<open>groundToImage\<close> as
  it is.
\<close>

lemma fold_update_outside:
  "\<forall>c \<in> set cs. f c \<noteq> k \<Longrightarrow>
   fold (\<lambda>c a. a[f c := g c]) cs (arr[k := v]) = (fold (\<lambda>c a. a[f c := g c]) cs arr)[k := v]"
proof (induction cs arbitrary: arr)
  case Nil
  show ?case by simp
next
  case (Cons c cs)
  have "f c \<noteq> k" using Cons.prems by simp
  then have "arr[k := v, f c := g c] = arr[f c := g c, k := v]"
    by (simp add: list_update_swap)
  then show ?case using Cons by simp
qed

lemma set_sample_outside:
  assumes "0 \<le> num" "0 \<le> i" "k < nat (num * i) \<or> nat (num * i) + nat num \<le> k"
  shows "set_sample num (arr[k := v]) i block = (set_sample num arr i block)[k := v]"
  unfolding set_sample_def
proof (rule fold_update_outside, rule ballI)
  fix c assume "c \<in> set [0..<nat num]"
  then have c: "c < nat num" by simp
  have "0 \<le> num * i" using assms by simp
  then have "nat (num * i + int c) = nat (num * i) + c"
    by (simp add: nat_add_distrib)
  then show "nat (num * i + int c) \<noteq> k" using assms(3) c by linarith
qed

lemma set_samples_outside:
  assumes "0 \<le> num" "0 \<le> beg" "0 \<le> q" "q < beg \<or> en \<le> q" "c < nat num"
  shows "set_samples num (arr[nat (num * q) + c := v]) beg en shift parameters =
         (set_samples num arr beg en shift parameters)[nat (num * q) + c := v]"
proof -
  have step: "\<And>qi a. qi \<in> set [beg..en - 1] \<Longrightarrow>
     set_sample num (a[nat (num * q) + c := v]) qi (parameters ! nat (qi + shift - beg)) =
     (set_sample num a qi (parameters ! nat (qi + shift - beg)))[nat (num * q) + c := v]"
  proof -
    fix qi a assume "qi \<in> set [beg..en - 1]"
    then have qi: "beg \<le> qi" "qi < en" by simp_all
    then have nn: "0 \<le> qi" and ne: "qi < q \<or> q < qi" using assms by linarith+
    have "nat (num * q) + c < nat (num * qi) \<or> nat (num * qi) + nat num \<le> nat (num * q) + c"
    proof (rule disjE [OF ne])
      assume "qi < q"
      then have "qi + 1 \<le> q" by simp
      then have "num * (qi + 1) \<le> num * q" using assms(1) by (rule mult_left_mono)
      then have "nat (num * qi) + nat num \<le> nat (num * q)"
        using assms(1) nn by (simp add: algebra_simps nat_add_distrib [symmetric] nat_le_eq_zle)
      then show ?thesis by simp
    next
      assume "q < qi"
      then have "q + 1 \<le> qi" by simp
      then have "num * (q + 1) \<le> num * qi" using assms(1) by (rule mult_left_mono)
      then have "nat (num * q) + nat num \<le> nat (num * qi)"
        using assms(1,3) by (simp add: algebra_simps nat_add_distrib [symmetric] nat_le_eq_zle)
      then show ?thesis using assms(5) by simp
    qed
    then show "set_sample num (a[nat (num * q) + c := v]) qi (parameters ! nat (qi + shift - beg)) =
     (set_sample num a qi (parameters ! nat (qi + shift - beg)))[nat (num * q) + c := v]"
      using assms(1) nn by (intro set_sample_outside)
  qed
  have "\<And>qs a. set qs \<subseteq> set [beg..en - 1] \<Longrightarrow>
      fold (\<lambda>qi a. set_sample num a qi (parameters ! nat (qi + shift - beg))) qs (a[nat (num * q) + c := v])
    = (fold (\<lambda>qi a. set_sample num a qi (parameters ! nat (qi + shift - beg))) qs a)[nat (num * q) + c := v]"
  proof -
    fix qs :: "int list" and a
    show "set qs \<subseteq> set [beg..en - 1] \<Longrightarrow>
      fold (\<lambda>qi a. set_sample num a qi (parameters ! nat (qi + shift - beg))) qs (a[nat (num * q) + c := v])
    = (fold (\<lambda>qi a. set_sample num a qi (parameters ! nat (qi + shift - beg))) qs a)[nat (num * q) + c := v]"
    proof (induction qs arbitrary: a)
      case Nil show ?case by simp
    next
      case (Cons x xs)
      then show ?case using step [of x a] by simp
    qed
  qed
  then show ?thesis unfolding set_samples_def by blast
qed

lemma set_samples_sample_outside:
  assumes "0 \<le> num" "0 \<le> beg" "0 \<le> q" "q < beg \<or> en \<le> q"
  shows "set_samples num (set_sample num arr q block) beg en shift parameters =
         set_sample num (set_samples num arr beg en shift parameters) q block"
proof -
  have "\<And>cs a. set cs \<subseteq> {0..<nat num} \<Longrightarrow>
     set_samples num (fold (\<lambda>coord a. a[nat (num * q + int coord) := block ! coord]) cs a) beg en shift parameters =
     fold (\<lambda>coord a. a[nat (num * q + int coord) := block ! coord]) cs (set_samples num a beg en shift parameters)"
  proof -
    fix cs :: "nat list" and a
    show "set cs \<subseteq> {0..<nat num} \<Longrightarrow>
     set_samples num (fold (\<lambda>coord a. a[nat (num * q + int coord) := block ! coord]) cs a) beg en shift parameters =
     fold (\<lambda>coord a. a[nat (num * q + int coord) := block ! coord]) cs (set_samples num a beg en shift parameters)"
    proof (induction cs arbitrary: a)
      case Nil show ?case by simp
    next
      case (Cons x xs)
      have x: "x < nat num" using Cons.prems by simp
      have e: "nat (num * q + int x) = nat (num * q) + x"
        using assms(1,3) by (simp add: nat_add_distrib)
      have "set_samples num (a[nat (num * q) + x := block ! x]) beg en shift parameters =
            (set_samples num a beg en shift parameters)[nat (num * q) + x := block ! x]"
        using assms x by (rule set_samples_outside)
      then show ?case using Cons e by simp
    qed
  qed
  then show ?thesis unfolding set_sample_def by simp
qed

lemma LsPixelReprojErr_cam_quat_outside:
  assumes "0 \<le> begQ" "0 \<le> q" "q < begQ \<or> endQ \<le> q"
  shows "LsPixelReprojErr_cam (ls\<lparr>m_quaternions := set_sample NUM_QUAT_PARAMS (m_quaternions ls) q block\<rparr>)
            begQ endQ begP endP parameters =
         (let cam = LsPixelReprojErr_cam ls begQ endQ begP endP parameters
          in cam\<lparr>m_quaternions := set_sample NUM_QUAT_PARAMS (m_quaternions cam) q block\<rparr>)"
proof -
  have "(0::int) \<le> NUM_QUAT_PARAMS" by (simp add: NUM_QUAT_PARAMS_def)
  then show ?thesis
    using assms by (simp add: LsPixelReprojErr_cam_def Let_def set_samples_sample_outside)
qed

lemma LsPixelReprojErr_cam_pos_outside:
  assumes "0 \<le> begP" "0 \<le> p" "p < begP \<or> endP \<le> p"
  shows "LsPixelReprojErr_cam (ls\<lparr>m_positions := set_sample NUM_XYZ_PARAMS (m_positions ls) p block\<rparr>)
            begQ endQ begP endP parameters =
         (let cam = LsPixelReprojErr_cam ls begQ endQ begP endP parameters
          in cam\<lparr>m_positions := set_sample NUM_XYZ_PARAMS (m_positions cam) p block\<rparr>)"
proof -
  have "(0::int) \<le> NUM_XYZ_PARAMS" by (simp add: NUM_XYZ_PARAMS_def)
  then show ?thesis
    using assms by (simp add: LsPixelReprojErr_cam_def Let_def set_samples_sample_outside)
qed

text \<open>
  Claim C2, as the code has it. When \<open>groundToImage\<close> throws an exception derived from
  \<open>std::exception\<close>, the linescan residual and the frame residual both set the two
  components to 1000, not multiplied by the weight, and return true.
\<close>

theorem reproj_exception_saturates:
  "(groundToImage (LsPixelReprojErr_cam ls begQ endQ begP endP parameters)
       (LsPixelReprojErr_point begQ endQ begP endP parameters) DEFAULT_CSM_DESIRED_PRECISION = Inl StdException
     \<longrightarrow> LsPixelReprojErr groundToImage fromCsmPixel observation weight ls begQ endQ begP endP parameters
         = Inr (True, 1000, 1000)) \<and>
   (frameGroundToImage (FramePixelReprojErr_cam setParameterValue frame frame_parameters)
       (FramePixelReprojErr_point frame_parameters) DEFAULT_CSM_DESIRED_PRECISION = Inl StdException
     \<longrightarrow> FramePixelReprojErr setParameterValue frameGroundToImage fromCsmPixel observation weight frame frame_parameters
         = Inr (True, 1000, 1000))"
  by (simp add: LsPixelReprojErr_def FramePixelReprojErr_def g_big_pixel_value_def)

theorem reproj_exception_saturates_witness:
  "LsPixelReprojErr (\<lambda>cam P prec. Inl StdException) (\<lambda>p. p) (10, 20) 2 example_ls_model 0 1 0 1
      [[0, 0, 0, 1], [0, 0, 0], [1, 2, 3]] = Inr (True, 1000, 1000) \<and>
   FramePixelReprojErr (\<lambda>i v c. c) (\<lambda>cam P prec. Inl StdException) (\<lambda>p. p) (10, 20) 2 ()
      [[0, 0, 0], [0, 0, 0, 1], [1, 2, 3]] = Inr (True, 1000, 1000)"
  using reproj_exception_saturates [of "\<lambda>cam P prec. Inl StdException" example_ls_model 0 1 0 1
      "[[0, 0, 0, 1], [0, 0, 0], [1, 2, 3]]" "\<lambda>p. p" "(10, 20)" 2
      "\<lambda>cam P prec. Inl StdException" "\<lambda>i v c. c" "()" "[[0, 0, 0], [0, 0, 0, 1], [1, 2, 3]]"]
  by simp

text \<open>
  With weight 2 the saturated residual is \<open>(1000, 1000)\<close>, not \<open>(2000, 2000)\<close>; and what is
  thrown outside the \<open>std::exception\<close> hierarchy is not caught.
\<close>

theorem reproj_exception_counterexample:
  "LsPixelReprojErr (\<lambda>cam P prec. Inl StdException) (\<lambda>p. p) (10, 20) 2 example_ls_model 0 1 0 1
      [[0, 0, 0, 1], [0, 0, 0], [1, 2, 3]] = Inr (True, 1000, 1000) \<and>
   LsPixelReprojErr (\<lambda>cam P prec. Inl StdException) (\<lambda>p. p) (10, 20) 2 example_ls_model 0 1 0 1
      [[0, 0, 0, 1], [0, 0, 0], [1, 2, 3]] \<noteq> Inr (True, 1000 * 2, 1000 * 2) \<and>
   LsPixelReprojErr (\<lambda>cam P prec. Inl OtherException) (\<lambda>p. p) (10, 20) 2 example_ls_model 0 1 0 1
      [[0, 0, 0, 1], [0, 0, 0], [1, 2, 3]] = Inl OtherException"
  by (simp add: LsPixelReprojErr_def g_big_pixel_value_def)

section \<open>Roll and yaw regularizer: results\<close>

lemma c_round_near: "\<bar>x - c_round x\<bar> \<le> 1 / 2"
proof -
  have "\<exists>n::int. c_round x = of_int n \<and> x - 1 / 2 \<le> of_int n \<and> of_int n \<le> x + 1 / 2"
  proof (cases "0 \<le> x")
    case True
    have "x - 1 / 2 \<le> of_int \<lfloor>x + 1 / 2\<rfloor>" "of_int \<lfloor>x + 1 / 2\<rfloor> \<le> x + 1 / 2"
      by linarith+
    then show ?thesis using True by (intro exI [of _ "\<lfloor>x + 1 / 2\<rfloor>"]) (simp add: c_round_def)
  next
    case False
    have "x - 1 / 2 \<le> of_int \<lceil>x - 1 / 2\<rceil>" "of_int \<lceil>x - 1 / 2\<rceil> \<le> x + 1 / 2"
      by linarith+
    then show ?thesis using False by (intro exI [of _ "\<lceil>x - 1 / 2\<rceil>"]) (simp add: c_round_def)
  qed
  then obtain n :: int where "c_round x = of_int n" "x - 1 / 2 \<le> of_int n" "of_int n \<le> x + 1 / 2"
    by blast
  then show ?thesis by linarith
qed

lemma fix_180_bound: "\<bar>fix_180 a\<bar> \<le> 90"
proof -
  define y where "y = a / 180 - c_round (a / 180)"
  have e: "fix_180 a = 180 * y"
    by (simp add: fix_180_def y_def algebra_simps)
  have "\<bar>y\<bar> \<le> 1 / 2"
    unfolding y_def by (rule c_round_near)
  then have "\<bar>180 * y\<bar> \<le> 90" by linarith
  then show ?thesis unfolding e .
qed

lemma fix_180_shift: "\<exists>k::int. fix_180 a = a - 180 * of_int k"
proof (cases "0 \<le> a / 180")
  case True
  then show ?thesis
    by (intro exI [of _ "\<lfloor>a / 180 + 1 / 2\<rfloor>"]) (simp add: fix_180_def c_round_def)
next
  case False
  then show ?thesis
    by (intro exI [of _ "\<lceil>a / 180 - 1 / 2\<rceil>"]) (simp add: fix_180_def c_round_def)
qed

text \<open>
  Claim C4. For every quaternion, every weight (zero included) and both modes, the
  regularizer returns true with two outputs that are an angle of
  \<open>rollPitchYawFromRotationMatrix\<close>, normalised by \<open>a - 180 * round (a / 180)\<close>, times its
  weight: in the satellite-frame mode the roll and the yaw of
  \<open>inverse(sat2World) * cam2world * inverse(rotXY)\<close>, in the initial-camera mode the pitch
  (times the roll weight) and the yaw of \<open>inverse(cam2world) * initCam2World\<close>. The
  normalisation shifts an angle by a multiple of 180 into \<open>[-90, 90]\<close>.
\<close>

theorem weightedRollYawError_range:
  "weightedRollYawError quaternionToMatrix mat_inverse rollPitchYawFromRotationMatrix
      rollWeight yawWeight initial_camera_constraint sat2World rotXY initCam2World parameters
     = (case rollPitchYawFromRotationMatrix
              (if initial_camera_constraint
               then mat_mul (mat_inverse (quaternionToMatrix (parameters ! 0))) initCam2World
               else mat_mul (mat_mul (mat_inverse sat2World) (quaternionToMatrix (parameters ! 0)))
                      (mat_inverse rotXY)) of
          (roll, pitch, yaw) \<Rightarrow>
            (True, fix_180 (if initial_camera_constraint then pitch else roll) * rollWeight,
                   fix_180 yaw * yawWeight)) \<and>
   (\<forall>a. - 90 \<le> fix_180 a \<and> fix_180 a \<le> 90 \<and> (\<exists>k::int. fix_180 a = a - 180 * of_int k))"
proof
  show "weightedRollYawError quaternionToMatrix mat_inverse rollPitchYawFromRotationMatrix
      rollWeight yawWeight initial_camera_constraint sat2World rotXY initCam2World parameters
     = (case rollPitchYawFromRotationMatrix
              (if initial_camera_constraint
               then mat_mul (mat_inverse (quaternionToMatrix (parameters ! 0))) initCam2World
               else mat_mul (mat_mul (mat_inverse sat2World) (quaternionToMatrix (parameters ! 0)))
                      (mat_inverse rotXY)) of
          (roll, pitch, yaw) \<Rightarrow>
            (True, fix_180 (if initial_camera_constraint then pitch else roll) * rollWeight,
                   fix_180 yaw * yawWeight))"
    by (simp add: weightedRollYawError_def Let_def split: prod.splits)
  show "\<forall>a. - 90 \<le> fix_180 a \<and> fix_180 a \<le> 90 \<and> (\<exists>k::int. fix_180 a = a - 180 * of_int k)"
  proof
    fix a
    have "- 90 \<le> fix_180 a \<and> fix_180 a \<le> 90"
      using fix_180_bound [of a] by linarith
    then show "- 90 \<le> fix_180 a \<and> fix_180 a \<le> 90 \<and> (\<exists>k::int. fix_180 a = a - 180 * of_int k)"
      using fix_180_shift [of a] by blast
  qed
qed

section \<open>Intrinsics to float: results\<close>

lemma fine_grained_step_integer:
  assumes "is_str_non_neg_integer opt"
    and "fine_grained_step num_sensors opt (sensor_id, seen_ids, flags) = Inr st'"
  shows "0 \<le> sensor_id_of opt \<and> sensor_id_of opt < num_sensors \<and> sensor_id_of opt \<notin> seen_ids \<and>
         st' = (sensor_id_of opt, insert (sensor_id_of opt) seen_ids, flags)"
proof -
  obtain c f d where fl: "flags = (c, f, d)" by (cases flags)
  have "fine_grained_step num_sensors opt (sensor_id, seen_ids, flags) =
      (if sensor_id_of opt < 0 \<or> sensor_id_of opt \<ge> num_sensors then
              Inl (ArgumentErr (''Sensor id '' @ opt @ '' is out of bounds.''))
            else if sensor_id_of opt \<in> seen_ids then
              Inl (ArgumentErr (''Sensor id '' @ opt @ '' is repeated.''))
            else Inr (sensor_id_of opt, insert (sensor_id_of opt) seen_ids, flags))"
    unfolding fine_grained_step_def fl sensor_id_of_def using assms(1) by (simp add: Let_def)
  with assms(2) show ?thesis
    by (cases "sensor_id_of opt < 0 \<or> sensor_id_of opt \<ge> num_sensors"; cases "sensor_id_of opt \<in> seen_ids") auto
qed

lemma fine_grained_step_other:
  assumes "\<not> is_str_non_neg_integer opt"
    and "fine_grained_step num_sensors opt (sensor_id, seen_ids, flags) = Inr st'"
  shows "\<exists>flags'. st' = (sensor_id, seen_ids, flags')"
proof -
  obtain c f d where fl: "flags = (c, f, d)" by (cases flags)
  have "\<exists>flags'. fine_grained_step num_sensors opt (sensor_id, seen_ids, flags) = Inr (sensor_id, seen_ids, flags')
      \<or> (\<exists>e. fine_grained_step num_sensors opt (sensor_id, seen_ids, flags) = Inl e)"
    unfolding fine_grained_step_def fl using assms(1) by simp
  with assms(2) show ?thesis by auto
qed

lemma fine_grained_loop_ids:
  assumes "for_options (fine_grained_step num_sensors) opts (sensor_id, seen_ids, flags) = Inr st'"
  shows "(\<forall>tok \<in> set opts. is_str_non_neg_integer tok \<longrightarrow>
            0 \<le> sensor_id_of tok \<and> sensor_id_of tok < num_sensors \<and> sensor_id_of tok \<notin> seen_ids) \<and>
         distinct (map sensor_id_of (filter is_str_non_neg_integer opts))"
  using assms
proof (induction opts arbitrary: sensor_id seen_ids flags)
  case Nil
  show ?case by simp
next
  case (Cons opt rest)
  from Cons.prems obtain st1 where
    s1: "fine_grained_step num_sensors opt (sensor_id, seen_ids, flags) = Inr st1" and
    r1: "for_options (fine_grained_step num_sensors) rest st1 = Inr st'"
    by (auto split: sum.splits)
  show ?case
  proof (cases "is_str_non_neg_integer opt")
    case True
    from fine_grained_step_integer [OF True s1]
    have rng: "0 \<le> sensor_id_of opt" "sensor_id_of opt < num_sensors" "sensor_id_of opt \<notin> seen_ids"
      and st1: "st1 = (sensor_id_of opt, insert (sensor_id_of opt) seen_ids, flags)"
      by simp_all
    from Cons.IH [OF r1 [unfolded st1]]
    have ih: "\<forall>tok \<in> set rest. is_str_non_neg_integer tok \<longrightarrow>
            0 \<le> sensor_id_of tok \<and> sensor_id_of tok < num_sensors \<and>
            sensor_id_of tok \<notin> insert (sensor_id_of opt) seen_ids"
      and d: "distinct (map sensor_id_of (filter is_str_non_neg_integer rest))"
      by simp_all
    have "sensor_id_of opt \<notin> set (map sensor_id_of (filter is_str_non_neg_integer rest))"
    proof
      assume "sensor_id_of opt \<in> set (map sensor_id_of (filter is_str_non_neg_integer rest))"
      then obtain tok where "tok \<in> set rest" "is_str_non_neg_integer tok" "sensor_id_of tok = sensor_id_of opt"
        by auto
      with ih show False by auto
    qed
    with True rng ih d show ?thesis by auto
  next
    case False
    from fine_grained_step_other [OF False s1] obtain flags' where
      st1: "st1 = (sensor_id, seen_ids, flags')" by blast
    from Cons.IH [OF r1 [unfolded st1]] False show ?thesis by auto
  qed
qed

lemma fine_grained_parse_ids:
  assumes "fine_grained_parse share num_sensors options = Inr flags"
  shows "(\<forall>tok \<in> set options. is_str_non_neg_integer tok \<longrightarrow>
            0 \<le> sensor_id_of tok \<and> sensor_id_of tok < num_sensors) \<and>
         distinct (map sensor_id_of (filter is_str_non_neg_integer options))"
proof -
  from assms obtain sid fl st' where
    "for_options (fine_grained_step num_sensors) options (sid, {}, fl) = Inr st'"
    by (auto simp: fine_grained_parse_def Let_def split: if_splits sum.splits)
  from fine_grained_loop_ids [OF this] show ?thesis by auto
qed

lemma repeated_not_distinct:
  assumes "i < j" "j < length xs" "P (xs ! i)" "P (xs ! j)" "f (xs ! i) = f (xs ! j)"
  shows "\<not> distinct (map f (filter P xs))"
proof -
  have "xs ! i \<in> set (filter P xs)" "xs ! j \<in> set (filter P xs)"
    using assms by simp_all
  have split: "xs = take j xs @ xs ! j # drop (Suc j) xs"
    using assms(2) by (simp add: id_take_nth_drop)
  have "xs ! i = take j xs ! i" using assms(1) by simp
  then have "xs ! i \<in> set (take j xs)"
    using assms(1,2) by (metis length_take min.absorb2 nth_mem less_imp_le)
  then have a: "f (xs ! i) \<in> set (map f (filter P (take j xs)))"
    using assms(3) by auto
  have "map f (filter P xs) =
        map f (filter P (take j xs)) @ f (xs ! j) # map f (filter P (drop (Suc j) xs))"
    using assms(4) by (subst split) simp
  then show ?thesis using a assms(5) by auto
qed

lemma decimal_value_nonneg:
  "list_all isdigit str \<Longrightarrow> 0 \<le> acc \<Longrightarrow> 0 \<le> foldl (\<lambda>acc c. 10 * acc + digit_value c) acc str"
proof (induction str arbitrary: acc)
  case Nil
  then show ?case by simp
next
  case (Cons c cs)
  have "0 \<le> digit_value c"
    using Cons.prems(1) by (auto simp: isdigit_def digit_value_def)
  with Cons show ?case by simp
qed

lemma atoi_small:
  assumes "is_str_non_neg_integer tok" "decimal_value tok < 2147483648"
  shows "atoi tok = decimal_value tok"
proof -
  have "0 \<le> decimal_value tok"
    using assms(1) decimal_value_nonneg [of tok 0]
    by (simp add: is_str_non_neg_integer_def decimal_value_def)
  with assms(2) show ?thesis
    by (simp add: atoi_def int32_def LONG_MAX_def)
qed

lemma sensor_id_of_small:
  assumes "is_str_non_neg_integer tok" "decimal_value tok < 2147483648"
  shows "sensor_id_of tok = decimal_value tok - 1"
proof -
  have "0 \<le> decimal_value tok"
    using assms(1) decimal_value_nonneg [of tok 0]
    by (simp add: is_str_non_neg_integer_def decimal_value_def)
  with assms(2) show ?thesis
    by (simp add: sensor_id_of_def atoi_small [OF assms] int32_def)
qed

text \<open>
  The two examples and the rejections. With 3 sensors the string
  \<open>1:focal_length,optical_center 2:all 3:none\<close> gives center \<open>[T, T, F]\<close>, focus \<open>[T, T, F]\<close>,
  distortion \<open>[F, T, F]\<close>; with 4 sensors the coarse string \<open>focal_length\<close> gives focus true
  and center and distortion false for all four sensors. In the fine-grained grammar a
  sensor index is the \<open>int\<close> that \<open>atoi\<close> returns, the decimal value when that is below
  \<open>2^31\<close>: \<open>fine_grained_parse\<close> ends in an error whenever an index below \<open>2^31\<close> is 0 or
  above the number of sensors, whenever the sensor id computed from an index is out of
  range, and whenever two indices give the same \<open>int\<close>.
\<close>

lemma intrinsics_to_float_parse:
  "load_intrinsics_to_float True 3 ''1:focal_length,optical_center 2:all 3:none''
     = Inr ([True, True, False], [True, True, False], [False, True, False]) \<and>
   load_intrinsics_to_float share 4 ''focal_length''
     = Inr ([False, False, False, False], [True, True, True, True], [False, False, False, False]) \<and>
   (tok \<in> set options \<and> is_str_non_neg_integer tok \<and> decimal_value tok < 2147483648 \<and>
      (decimal_value tok < 1 \<or> num_sensors < decimal_value tok)
      \<longrightarrow> (\<exists>e. fine_grained_parse share1 num_sensors options = Inl e)) \<and>
   (tok3 \<in> set options3 \<and> is_str_non_neg_integer tok3 \<and>
      (sensor_id_of tok3 < 0 \<or> num_sensors3 \<le> sensor_id_of tok3)
      \<longrightarrow> (\<exists>e. fine_grained_parse share3 num_sensors3 options3 = Inl e)) \<and>
   (i < j \<and> j < length options2 \<and> is_str_non_neg_integer (options2 ! i) \<and>
      is_str_non_neg_integer (options2 ! j) \<and> atoi (options2 ! i) = atoi (options2 ! j)
      \<longrightarrow> (\<exists>e. fine_grained_parse share2 num_sensors2 options2 = Inl e))"
proof (intro conjI impI)
  have t1: "to_lower ''1:focal_length,optical_center 2:all 3:none'' = ''1:focal_length,optical_center 2:all 3:none''"
    by (simp add: to_lower_def to_lower_char_def)
  have t2: "replace_separators_with_space ''1:focal_length,optical_center 2:all 3:none'' = ''1 focal_length optical_center 2 all 3 none''"
    by (simp add: replace_separators_with_space_def separators_def)
  have t3: "split_str_with_space ''1 focal_length optical_center 2 all 3 none'' = [''1'', ''focal_length'', ''optical_center'', ''2'', ''all'', ''3'', ''none'']"
    by (simp add: split_str_with_space_def is_space_def)
  have t4: "fine_grained_parse True 3 [''1'', ''focal_length'', ''optical_center'', ''2'', ''all'', ''3'', ''none''] = Inr ([True, True, False], [True, True, False], [False, True, False])"
    by (simp add: fine_grained_parse_def fine_grained_step_def is_str_non_neg_integer_def isdigit_def
        atoi_def decimal_value_def int32_def LONG_MAX_def digit_value_def Let_def numeral_3_eq_3)
  show "load_intrinsics_to_float True 3 ''1:focal_length,optical_center 2:all 3:none''
     = Inr ([True, True, False], [True, True, False], [False, True, False])"
    unfolding load_intrinsics_to_float_def Let_def t1
    by (simp add: t2 t3 t4) (simp add: is_str_non_neg_integer_def isdigit_def)
next
  have c1: "to_lower ''focal_length'' = ''focal_length''"
    by (simp add: to_lower_def to_lower_char_def)
  have c2: "replace_separators_with_space ''focal_length'' = ''focal_length''"
    by (simp add: replace_separators_with_space_def separators_def)
  have c3: "split_str_with_space ''focal_length'' = [''focal_length'']"
    by (simp add: split_str_with_space_def is_space_def)
  have c4: "coarse_grained_parse 4 [''focal_length'']
      = Inr ([False, False, False, False], [True, True, True, True], [False, False, False, False])"
    by (simp add: coarse_grained_parse_def coarse_grained_step_def is_str_non_neg_integer_def
        isdigit_def distribute_flag_def Let_def eval_nat_numeral upt_rec)
  show "load_intrinsics_to_float share 4 ''focal_length''
     = Inr ([False, False, False, False], [True, True, True, True], [False, False, False, False])"
    unfolding load_intrinsics_to_float_def Let_def c1
    by (simp add: c2 c3 c4) (simp add: is_str_non_neg_integer_def isdigit_def)
next
  assume a: "tok \<in> set options \<and> is_str_non_neg_integer tok \<and> decimal_value tok < 2147483648 \<and>
      (decimal_value tok < 1 \<or> num_sensors < decimal_value tok)"
  then have s: "sensor_id_of tok = decimal_value tok - 1"
    by (intro sensor_id_of_small) simp_all
  show "\<exists>e. fine_grained_parse share1 num_sensors options = Inl e"
  proof (cases "fine_grained_parse share1 num_sensors options")
    case (Inl e) then show ?thesis by blast
  next
    case (Inr flags)
    from fine_grained_parse_ids [OF Inr] a s show ?thesis by auto
  qed
next
  assume a: "tok3 \<in> set options3 \<and> is_str_non_neg_integer tok3 \<and>
      (sensor_id_of tok3 < 0 \<or> num_sensors3 \<le> sensor_id_of tok3)"
  show "\<exists>e. fine_grained_parse share3 num_sensors3 options3 = Inl e"
  proof (cases "fine_grained_parse share3 num_sensors3 options3")
    case (Inl e) then show ?thesis by blast
  next
    case (Inr flags)
    from fine_grained_parse_ids [OF Inr] a show ?thesis by auto
  qed
next
  assume a: "i < j \<and> j < length options2 \<and> is_str_non_neg_integer (options2 ! i) \<and>
      is_str_non_neg_integer (options2 ! j) \<and> atoi (options2 ! i) = atoi (options2 ! j)"
  then have "sensor_id_of (options2 ! i) = sensor_id_of (options2 ! j)"
    by (simp add: sensor_id_of_def)
  with a have "\<not> distinct (map sensor_id_of (filter is_str_non_neg_integer options2))"
    by (intro repeated_not_distinct [of i j]) simp_all
  then show "\<exists>e. fine_grained_parse share2 num_sensors2 options2 = Inl e"
    using fine_grained_parse_ids [of share2 num_sensors2 options2]
    by (cases "fine_grained_parse share2 num_sensors2 options2") auto
qed

lemma intrinsics_to_float_parse_examples:
  "(\<exists>e. fine_grained_parse True 3 [''4'', ''all''] = Inl e) \<and>
   (\<exists>e. fine_grained_parse True 3 [''0'', ''all''] = Inl e) \<and>
   (\<exists>e. fine_grained_parse True 3 [''1'', ''all'', ''1'', ''none''] = Inl e)"
proof -
  have d: "decimal_value ''4'' = 4" "decimal_value ''0'' = 0"
    by (simp_all add: decimal_value_def digit_value_def)
  have s: "sensor_id_of ''0'' = - 1"
    by (simp add: sensor_id_of_def atoi_def decimal_value_def digit_value_def int32_def LONG_MAX_def)
  show ?thesis
    using intrinsics_to_float_parse [where tok = "''4''" and options = "[''4'', ''all'']"
      and num_sensors = 3 and ?share1.0 = True
      and ?tok3.0 = "''0''" and ?options3.0 = "[''0'', ''all'']" and ?num_sensors3.0 = 3 and ?share3.0 = True
      and i = 0 and j = 2
      and ?options2.0 = "[''1'', ''all'', ''1'', ''none'']" and ?share2.0 = True and ?num_sensors2.0 = 3]
    by (simp add: d s is_str_non_neg_integer_def isdigit_def)
qed

text \<open>
  Claim C9. An index of \<open>2^31\<close> or more is not rejected for being out of range: the
  index 4294967297 is above the 3 sensors, \<open>atoi\<close> turns it into 1, and the option
  \<open>4294967297:all\<close> floats all intrinsics of sensor 1 instead of ending in an error.
\<close>

theorem intrinsics_to_float_index_wraps:
  "load_intrinsics_to_float True 3 ''4294967297:all''
     = Inr ([True, False, False], [True, False, False], [True, False, False]) \<and>
   decimal_value ''4294967297'' = 4294967297"
proof -
  have t1: "to_lower ''4294967297:all'' = ''4294967297:all''"
    by (simp add: to_lower_def to_lower_char_def)
  have t2: "replace_separators_with_space ''4294967297:all'' = ''4294967297 all''"
    by (simp add: replace_separators_with_space_def separators_def)
  have t3: "split_str_with_space ''4294967297 all'' = [''4294967297'', ''all'']"
    by (simp add: split_str_with_space_def is_space_def)
  have d: "decimal_value ''4294967297'' = 4294967297"
    by (simp add: decimal_value_def digit_value_def)
  have a: "atoi ''4294967297'' = 1"
    by (simp add: atoi_def d int32_def LONG_MAX_def)
  have i: "is_str_non_neg_integer ''4294967297''" "\<not> is_str_non_neg_integer ''all''"
    by (simp_all add: is_str_non_neg_integer_def isdigit_def)
  have t4: "fine_grained_parse True 3 [''4294967297'', ''all'']
      = Inr ([True, False, False], [True, False, False], [True, False, False])"
    by (simp add: fine_grained_parse_def fine_grained_step_def i a int32_def Let_def numeral_3_eq_3)
  show ?thesis
    unfolding load_intrinsics_to_float_def Let_def t1
    by (simp add: t2 t3 t4 d i)
qed

section \<open>Centre of the point cloud: results\<close>

lemma example_visited_tiles: "visited_tiles (10,10) example_cloud = [(1,0),(0,0)]"
  by (simp add: visited_tiles_def example_cloud_def spiral_tiles_def upto_rec1)

lemma upto_0_9: "[0..9::int] = [0,1,2,3,4,5,6,7,8,9]"
  by (simp add: upto_rec1)


lemma example_right_tile: "tile_points (10,10) ((0,0),(20,10)) example_cloud (1,0) = concat (replicate 10 example_column)"
  by (simp add: tile_points_def BBox2i_def bbox_crop_def bounding_box_def example_cloud_def upto_0_9 vec3_zero_def example_column_def eval_nat_numeral)

lemma example_left_tile: "tile_points (10,10) ((0,0),(20,10)) example_cloud (0,0) = [(1,1,1)]"
  by (simp add: tile_points_def BBox2i_def bbox_crop_def bounding_box_def example_cloud_def upto_0_9 vec3_zero_def)

lemma example_right_tile_length: "length (concat (replicate 10 example_column)) = 100"
  by (simp add: length_concat example_column_def sum_list_replicate)

lemma example_spiral_points: "spiral_points (10,10) ((0,0),(20,10)) example_cloud = concat (replicate 10 example_column) @ [(1,1,1)]"
  by (simp add: spiral_points_def example_visited_tiles example_right_tile example_left_tile Let_def example_right_tile_length)

lemma replicate_10: "replicate 10 x = [x, x, x, x, x, x, x, x, x, x]"
  by (simp add: eval_nat_numeral)

lemma example_median_all: "median_coord (concat (replicate 10 example_column) @ [(1,1,1)]) i = 1"
  unfolding median_coord_def Let_def length_append example_right_tile_length
  by (simp add: replicate_10 vec3_coord_def example_column_def)

lemma example_median_right_tile: "median_coord (concat (replicate 10 example_column)) i = 3"
  unfolding median_coord_def Let_def length_append example_right_tile_length
  by (simp add: replicate_10 vec3_coord_def example_column_def)

lemma accumulate_tiles_prefix:
  "\<exists>k \<le> length ts.
     accumulate_tiles f ts points = points @ concat (map f (take k ts)) \<and>
     (\<forall>j. 1 \<le> j \<and> j < k \<longrightarrow> length (points @ concat (map f (take j ts))) \<le> 100) \<and>
     (k < length ts \<longrightarrow> 100 < length (points @ concat (map f (take k ts))))"
proof (induction ts arbitrary: points)
  case Nil
  show ?case by simp
next
  case (Cons t ts)
  show ?case
  proof (cases "100 < length (points @ f t)")
    case True
    then show ?thesis
      by (intro exI [of _ 1]) simp
  next
    case False
    from Cons.IH [of "points @ f t"] obtain k where
      k: "k \<le> length ts"
         "accumulate_tiles f ts (points @ f t) = (points @ f t) @ concat (map f (take k ts))"
         "\<forall>j. 1 \<le> j \<and> j < k \<longrightarrow> length ((points @ f t) @ concat (map f (take j ts))) \<le> 100"
         "k < length ts \<longrightarrow> 100 < length ((points @ f t) @ concat (map f (take k ts)))"
      by blast
    have "\<forall>j. 1 \<le> j \<and> j < Suc k \<longrightarrow> length (points @ concat (map f (take j (t # ts)))) \<le> 100"
    proof (intro allI impI)
      fix j assume j: "1 \<le> j \<and> j < Suc k"
      then obtain j' where j': "j = Suc j'" by (cases j) auto
      show "length (points @ concat (map f (take j (t # ts)))) \<le> 100"
      proof (cases "j' = 0")
        case True
        with False j' show ?thesis by simp
      next
        case False
        with j j' k(3) have "length ((points @ f t) @ concat (map f (take j' ts))) \<le> 100" by simp
        with j' show ?thesis by simp
      qed
    qed
    with k False show ?thesis
      by (intro exI [of _ "Suc k"]) simp
  qed
qed

lemma median_coord_mem:
  assumes "points \<noteq> []"
  shows "median_coord points i \<in> (\<lambda>p. vec3_coord p i) ` set points"
proof -
  have "length points div 2 < length (sort (map (\<lambda>p. vec3_coord p i) points))"
    using assms by simp
  then have "sort (map (\<lambda>p. vec3_coord p i) points) ! (length points div 2)
               \<in> set (sort (map (\<lambda>p. vec3_coord p i) points))"
    by (rule nth_mem)
  then show ?thesis by (simp add: median_coord_def)
qed

lemma nudge_bound:
  assumes "0 < RAND_MAX" "0 \<le> r" "r \<le> RAND_MAX"
  shows "\<bar>(m + m * (1 / 10 ^ 10) * real_of_int r / real_of_int RAND_MAX) - m\<bar> \<le> \<bar>m\<bar> / 10 ^ 10"
proof -
  define u where "u = real_of_int r / real_of_int RAND_MAX"
  have u: "0 \<le> u" "u \<le> 1" using assms by (simp_all add: u_def)
  have "(m + m * (1 / 10 ^ 10) * real_of_int r / real_of_int RAND_MAX) - m = (m / 10 ^ 10) * u"
    by (simp add: u_def)
  moreover have "\<bar>(m / 10 ^ 10) * u\<bar> \<le> \<bar>m\<bar> / 10 ^ 10"
  proof -
    have "\<bar>(m / 10 ^ 10) * u\<bar> = (\<bar>m\<bar> / 10 ^ 10) * u" using u by (simp add: abs_mult)
    also have "\<dots> \<le> (\<bar>m\<bar> / 10 ^ 10) * 1" using u by (intro mult_left_mono) simp_all
    finally show ?thesis by simp
  qed
  ultimately show ?thesis by simp
qed

lemma median_nudged:
  assumes "0 < RAND_MAX" "\<forall>i. 0 \<le> rand_value i \<and> rand_value i \<le> RAND_MAX" "points \<noteq> []" "i < 3"
  shows "\<bar>vec3_coord (find_approx_points_median rand_value RAND_MAX points) i - median_coord points i\<bar>
           \<le> \<bar>median_coord points i\<bar> / 10 ^ 10"
proof -
  have "vec3_coord (find_approx_points_median rand_value RAND_MAX points) i =
        median_coord points i + median_coord points i * (1 / 10 ^ 10) * real_of_int (rand_value i)
          / real_of_int RAND_MAX"
  proof -
    have "i = 0 \<or> i = 1 \<or> i = 2" using assms(4) by linarith
    then show ?thesis
      using assms(3) by (auto simp: find_approx_points_median_def vec3_coord_def Let_def)
  qed
  with nudge_bound [of RAND_MAX "rand_value i" "median_coord points i"] assms(1,2)
  show ?thesis by simp
qed

lemma accumulate_tiles_empty:
  "\<forall>t. f t = [] \<Longrightarrow> accumulate_tiles f ts [] = []"
  by (induction ts) simp_all

lemma tile_points_all_invalid:
  assumes "\<forall>x y. fst (pc_pixel cloud x y) = vec3_zero"
  shows "tile_points tile_size win cloud t = []"
  using assms by (simp add: tile_points_def Let_def split: prod.splits)

text \<open>
  Claim C7, as the code has it. The spiral search returns after the first visited tile
  that brings the number of accumulated valid points above 100 (or after the last tile):
  the points handed on are those of the first \<open>k\<close> visited tiles, after fewer tiles there
  were at most 100, and if tiles are left there are more than 100. The centre is
  \<open>find_approx_points_median\<close> of these points: each coordinate is the entry
  \<open>V[n/2]\<close> of the sorted coordinate values, a coordinate of one of the points, moved by
  at most 1e-10 times its magnitude (for \<open>rand()\<close> between 0 and \<open>RAND_MAX\<close>).
\<close>

theorem find_point_cloud_center_stops:
  assumes "0 < RAND_MAX" and "\<forall>i. 0 \<le> rand_value i \<and> rand_value i \<le> RAND_MAX"
  shows "\<exists>k \<le> length (visited_tiles tile_size cloud).
           spiral_points tile_size win cloud
             = concat (map (tile_points tile_size win cloud) (take k (visited_tiles tile_size cloud))) \<and>
           (\<forall>j < k. length (concat (map (tile_points tile_size win cloud)
                                   (take j (visited_tiles tile_size cloud)))) \<le> 100) \<and>
           (k < length (visited_tiles tile_size cloud)
              \<longrightarrow> 100 < length (spiral_points tile_size win cloud)) \<and>
           find_point_cloud_center rand_value RAND_MAX tile_size win cloud
             = find_approx_points_median rand_value RAND_MAX (spiral_points tile_size win cloud) \<and>
           (spiral_points tile_size win cloud \<noteq> [] \<longrightarrow>
              (\<forall>i < 3.
                 median_coord (spiral_points tile_size win cloud) i
                   \<in> (\<lambda>p. vec3_coord p i) ` set (spiral_points tile_size win cloud) \<and>
                 \<bar>vec3_coord (find_point_cloud_center rand_value RAND_MAX tile_size win cloud) i
                    - median_coord (spiral_points tile_size win cloud) i\<bar>
                   \<le> \<bar>median_coord (spiral_points tile_size win cloud) i\<bar> / 10 ^ 10))"
proof -
  from accumulate_tiles_prefix [of "visited_tiles tile_size cloud" "tile_points tile_size win cloud" "[]"]
  obtain k where k: "k \<le> length (visited_tiles tile_size cloud)"
    "spiral_points tile_size win cloud
       = concat (map (tile_points tile_size win cloud) (take k (visited_tiles tile_size cloud)))"
    "\<forall>j. 1 \<le> j \<and> j < k \<longrightarrow> length (concat (map (tile_points tile_size win cloud)
                                   (take j (visited_tiles tile_size cloud)))) \<le> 100"
    "k < length (visited_tiles tile_size cloud) \<longrightarrow> 100 < length (spiral_points tile_size win cloud)"
    unfolding spiral_points_def by auto
  have small: "\<forall>j < k. length (concat (map (tile_points tile_size win cloud)
                                   (take j (visited_tiles tile_size cloud)))) \<le> 100"
  proof (intro allI impI)
    fix j assume "j < k"
    show "length (concat (map (tile_points tile_size win cloud)
                                   (take j (visited_tiles tile_size cloud)))) \<le> 100"
    proof (cases j)
      case 0 then show ?thesis by simp
    next
      case (Suc n) with \<open>j < k\<close> k(3) show ?thesis by simp
    qed
  qed
  have med: "spiral_points tile_size win cloud \<noteq> [] \<longrightarrow>
              (\<forall>i < 3.
                 median_coord (spiral_points tile_size win cloud) i
                   \<in> (\<lambda>p. vec3_coord p i) ` set (spiral_points tile_size win cloud) \<and>
                 \<bar>vec3_coord (find_point_cloud_center rand_value RAND_MAX tile_size win cloud) i
                    - median_coord (spiral_points tile_size win cloud) i\<bar>
                   \<le> \<bar>median_coord (spiral_points tile_size win cloud) i\<bar> / 10 ^ 10)"
    unfolding find_point_cloud_center_def
    using median_coord_mem median_nudged [OF assms] by blast
  show ?thesis
    using k(1,2,4) small med by (intro exI [of _ k]) (simp add: find_point_cloud_center_def)
qed

theorem find_point_cloud_center_stops_witness:
  "\<exists>k \<le> length (visited_tiles (10, 10) example_cloud).
           spiral_points (10, 10) ((0, 0), (20, 10)) example_cloud
             = concat (map (tile_points (10, 10) ((0, 0), (20, 10)) example_cloud)
                 (take k (visited_tiles (10, 10) example_cloud))) \<and>
           (\<forall>j < k. length (concat (map (tile_points (10, 10) ((0, 0), (20, 10)) example_cloud)
                                   (take j (visited_tiles (10, 10) example_cloud)))) \<le> 100) \<and>
           (k < length (visited_tiles (10, 10) example_cloud)
              \<longrightarrow> 100 < length (spiral_points (10, 10) ((0, 0), (20, 10)) example_cloud)) \<and>
           find_point_cloud_center (\<lambda>i. 1) 2 (10, 10) ((0, 0), (20, 10)) example_cloud
             = find_approx_points_median (\<lambda>i. 1) 2
                 (spiral_points (10, 10) ((0, 0), (20, 10)) example_cloud) \<and>
           (spiral_points (10, 10) ((0, 0), (20, 10)) example_cloud \<noteq> [] \<longrightarrow>
              (\<forall>i < 3.
                 median_coord (spiral_points (10, 10) ((0, 0), (20, 10)) example_cloud) i
                   \<in> (\<lambda>p. vec3_coord p i) ` set (spiral_points (10, 10) ((0, 0), (20, 10)) example_cloud) \<and>
                 \<bar>vec3_coord (find_point_cloud_center (\<lambda>i. 1) 2 (10, 10) ((0, 0), (20, 10)) example_cloud) i
                    - median_coord (spiral_points (10, 10) ((0, 0), (20, 10)) example_cloud) i\<bar>
                   \<le> \<bar>median_coord (spiral_points (10, 10) ((0, 0), (20, 10)) example_cloud) i\<bar> / 10 ^ 10))"
  by (rule find_point_cloud_center_stops) simp_all

text \<open>
  The search does not stop at 100 points: in \<open>example_cloud\<close> the first tile visited
  holds exactly 100 valid points, the search goes on to the next tile and returns the
  median of 101 points, \<open>(1, 1, 1)\<close>, where the 100 points give \<open>(3, 3, 3)\<close>.
\<close>

theorem find_point_cloud_center_counterexample:
  "length (tile_points (10, 10) ((0, 0), (20, 10)) example_cloud (1, 0)) = 100 \<and>
   hd (visited_tiles (10, 10) example_cloud) = (1, 0) \<and>
   length (spiral_points (10, 10) ((0, 0), (20, 10)) example_cloud) = 101 \<and>
   find_point_cloud_center (\<lambda>i. 0) 1 (10, 10) ((0, 0), (20, 10)) example_cloud = (1, 1, 1) \<and>
   find_approx_points_median (\<lambda>i. 0) 1
     (tile_points (10, 10) ((0, 0), (20, 10)) example_cloud (1, 0)) = (3, 3, 3)"
proof -
  have ne: "example_column \<noteq> []"
    by (simp add: example_column_def)
  show ?thesis
    by (simp add: find_point_cloud_center_def find_approx_points_median_def example_spiral_points example_right_tile example_visited_tiles example_right_tile_length example_median_all example_median_right_tile ne)
qed

text \<open>
  Claim C10. With no valid point accumulated, \<open>find_approx_points_median\<close> and with it
  \<open>find_point_cloud_center\<close> return the zero vector, the value that marks an invalid
  point; this is so for every cloud whose pixels are all invalid.
\<close>

theorem empty_cloud_center_zero:
  "find_approx_points_median rand_value RAND_MAX [] = vec3_zero \<and>
   (spiral_points tile_size win cloud = []
      \<longrightarrow> find_point_cloud_center rand_value RAND_MAX tile_size win cloud = vec3_zero) \<and>
   ((\<forall>x y. fst (pc_pixel cloud2 x y) = vec3_zero)
      \<longrightarrow> spiral_points tile_size win cloud2 = [] \<and>
          find_point_cloud_center rand_value RAND_MAX tile_size win cloud2 = vec3_zero)"
proof (intro conjI impI)
  show "find_approx_points_median rand_value RAND_MAX [] = vec3_zero"
    by (simp add: find_approx_points_median_def)
  then show "find_point_cloud_center rand_value RAND_MAX tile_size win cloud = vec3_zero"
    if "spiral_points tile_size win cloud = []"
    using that by (simp add: find_point_cloud_center_def)
  assume z: "\<forall>x y. fst (pc_pixel cloud2 x y) = vec3_zero"
  show e: "spiral_points tile_size win cloud2 = []"
    unfolding spiral_points_def
    by (rule accumulate_tiles_empty) (simp add: tile_points_all_invalid [OF z])
  show "find_point_cloud_center rand_value RAND_MAX tile_size win cloud2 = vec3_zero"
    by (simp add: find_point_cloud_center_def e find_approx_points_median_def)
qed

theorem empty_cloud_center_zero_witness:
  "spiral_points (10, 10) ((0, 0), (20, 10)) empty_cloud = [] \<and>
   find_point_cloud_center (\<lambda>i. 7) 10 (10, 10) ((0, 0), (20, 10)) empty_cloud = (0, 0, 0)"
  using empty_cloud_center_zero [of "\<lambda>i. 7" 10 "(10, 10)" "((0, 0), (20, 10))" empty_cloud empty_cloud]
  by (simp add: empty_cloud_def vec3_zero_def)

section \<open>Rigid transform and GCP check: results\<close>

lemma is_pinhole_simps:
  "is_pinhole (PinholeModel p)" "\<not> is_pinhole (OtherModel other)"
  by (simp_all add: is_pinhole_def)

lemma transform_cameras_result:
  "transform_cameras f cams =
     (if \<forall>c \<in> set cams. is_pinhole c
      then (None, map (\<lambda>c. case c of PinholeModel p \<Rightarrow> PinholeModel (f p) | OtherModel other \<Rightarrow> c) cams)
      else (Some (ArgumentErr ''A pinhole camera expected.''),
            map (\<lambda>c. case c of PinholeModel p \<Rightarrow> PinholeModel (f p) | OtherModel other \<Rightarrow> c)
              (takeWhile is_pinhole cams) @ dropWhile is_pinhole cams))"
proof (induction cams)
  case Nil
  show ?case by simp
next
  case (Cons c cams)
  show ?case
  proof (cases c)
    case (PinholeModel p)
    with Cons show ?thesis by (simp add: is_pinhole_simps)
  next
    case (OtherModel other)
    then show ?thesis by (simp add: is_pinhole_simps)
  qed
qed

lemma transform_point_coords:
  "vec3_add (mat_vec (scalar_mat s ((r00, r01, r02), (r10, r11, r12), (r20, r21, r22))) (x, y, z)) (tx, ty, tz)
     = (s * (r00 * x + r01 * y + r02 * z) + tx,
        s * (r10 * x + r11 * y + r12 * z) + ty,
        s * (r20 * x + r21 * y + r22 * z) + tz)"
  by (simp add: vec3_add_def mat_vec_def scalar_mat_def algebra_simps)

text \<open>
  Claim C8, as the code has it. When every camera is a pinhole camera,
  \<open>apply_rigid_transform\<close> throws nothing, transforms every camera, leaves every ground
  control point as it is and gives every other control point the position
  \<open>s R p + t\<close>, nothing else of the point changing. When some camera is not a pinhole
  camera, it throws the argument error: the pinhole cameras before the first such camera
  are transformed, the others are not, and no control point is changed.
\<close>

theorem apply_rigid_transform_pinhole:
  assumes "rotation = ((r00, r01, r02), (r10, r11, r12), (r20, r21, r22))"
    and "translation = (tx, ty, tz)"
  shows "((\<forall>c \<in> set cameras. is_pinhole c) \<longrightarrow>
          apply_rigid_transform apply_transform rotation translation scale cameras cnet
           = (None,
              map (\<lambda>c. case c of PinholeModel p \<Rightarrow> PinholeModel (apply_transform rotation translation scale p)
                                | OtherModel other \<Rightarrow> c) cameras,
              map (\<lambda>cp. if cp_type cp = GroundControlPoint then cp
                         else (case cp_position cp of (x, y, z) \<Rightarrow>
                                 cp\<lparr>cp_position :=
                                      (scale * (r00 * x + r01 * y + r02 * z) + tx,
                                       scale * (r10 * x + r11 * y + r12 * z) + ty,
                                       scale * (r20 * x + r21 * y + r22 * z) + tz)\<rparr>)) cnet)) \<and>
         ((\<exists>c \<in> set cameras. \<not> is_pinhole c) \<longrightarrow>
          apply_rigid_transform apply_transform rotation translation scale cameras cnet
           = (Some (ArgumentErr ''A pinhole camera expected.''),
              map (\<lambda>c. case c of PinholeModel p \<Rightarrow> PinholeModel (apply_transform rotation translation scale p)
                                | OtherModel other \<Rightarrow> c) (takeWhile is_pinhole cameras)
                @ dropWhile is_pinhole cameras,
              cnet))"
proof -
  have "transform_control_point rotation translation scale cp =
          (if cp_type cp = GroundControlPoint then cp
           else (case cp_position cp of (x, y, z) \<Rightarrow>
                   cp\<lparr>cp_position :=
                        (scale * (r00 * x + r01 * y + r02 * z) + tx,
                         scale * (r10 * x + r11 * y + r12 * z) + ty,
                         scale * (r20 * x + r21 * y + r22 * z) + tz)\<rparr>))" for cp :: "'c control_point_scheme"
    by (cases "cp_position cp")
       (simp add: transform_control_point_def assms transform_point_coords Let_def)
  then show ?thesis
    by (simp add: apply_rigid_transform_def transform_cameras_result)
qed

theorem apply_rigid_transform_pinhole_witness:
  "apply_rigid_transform (\<lambda>R t s (p::vec3). vec3_add (mat_vec (scalar_mat s R) p) t) identity_mat3 (1, 0, 0) 2
      [PinholeModel (1, 1, 1) :: (vec3, unit) camera_model] [example_gcp, example_tie_point]
    = (None, [PinholeModel (3, 2, 2)], [example_gcp, example_tie_point\<lparr>cp_position := (900001, 0, 0)\<rparr>]) \<and>
   apply_rigid_transform (\<lambda>R t s (p::vec3). vec3_add (mat_vec (scalar_mat s R) p) t) identity_mat3 (1, 0, 0) 2
      [PinholeModel (1, 1, 1), OtherModel (), PinholeModel (1, 1, 1)] [example_gcp, example_tie_point]
    = (Some (ArgumentErr ''A pinhole camera expected.''),
       [PinholeModel (3, 2, 2), OtherModel (), PinholeModel (1, 1, 1)], [example_gcp, example_tie_point])"
proof -
  have a: "apply_rigid_transform (\<lambda>R t s (p::vec3). vec3_add (mat_vec (scalar_mat s R) p) t) identity_mat3 (1, 0, 0) 2
      [PinholeModel (1, 1, 1) :: (vec3, unit) camera_model] [example_gcp, example_tie_point]
    = (None, [PinholeModel (3, 2, 2)], [example_gcp, example_tie_point\<lparr>cp_position := (900001, 0, 0)\<rparr>])"
    using apply_rigid_transform_pinhole [where cameras = "[PinholeModel (1, 1, 1) :: (vec3, unit) camera_model]"
      and rotation = identity_mat3 and translation = "(1, 0, 0)" and scale = 2
      and cnet = "[example_gcp, example_tie_point]"
      and apply_transform = "\<lambda>R t s (p::vec3). vec3_add (mat_vec (scalar_mat s R) p) t"
      and ?r00.0 = 1 and ?r01.0 = 0 and ?r02.0 = 0 and ?r10.0 = 0 and ?r11.0 = 1 and ?r12.0 = 0
      and ?r20.0 = 0 and ?r21.0 = 0 and ?r22.0 = 1 and tx = 1 and ty = 0 and tz = 0]
    by (simp add: identity_mat3_def vec3_add_def mat_vec_def scalar_mat_def example_gcp_def
        example_tie_point_def is_pinhole_simps)
  have b: "apply_rigid_transform (\<lambda>R t s (p::vec3). vec3_add (mat_vec (scalar_mat s R) p) t) identity_mat3 (1, 0, 0) 2
      [PinholeModel (1, 1, 1), OtherModel (), PinholeModel (1, 1, 1)] [example_gcp, example_tie_point]
    = (Some (ArgumentErr ''A pinhole camera expected.''),
       [PinholeModel (3, 2, 2), OtherModel (), PinholeModel (1, 1, 1)], [example_gcp, example_tie_point])"
    using apply_rigid_transform_pinhole [where cameras = "[PinholeModel (1, 1, 1), OtherModel (), PinholeModel (1, 1, 1)]"
      and rotation = identity_mat3 and translation = "(1, 0, 0)" and scale = 2
      and cnet = "[example_gcp, example_tie_point]"
      and apply_transform = "\<lambda>R t s (p::vec3). vec3_add (mat_vec (scalar_mat s R) p) t"
      and ?r00.0 = 1 and ?r01.0 = 0 and ?r02.0 = 0 and ?r10.0 = 0 and ?r11.0 = 1 and ?r12.0 = 0
      and ?r20.0 = 0 and ?r21.0 = 0 and ?r22.0 = 1 and tx = 1 and ty = 0 and tz = 0]
    by (simp add: identity_mat3_def vec3_add_def mat_vec_def scalar_mat_def is_pinhole_simps)
  show ?thesis using a b by simp
qed

text \<open>
  A camera that is not a pinhole camera makes \<open>VW_ASSERT\<close> throw in the first loop: the
  camera stays as it is and the tie point keeps its position.
\<close>

theorem apply_rigid_transform_counterexample:
  "apply_rigid_transform (\<lambda>R t s (p::unit). p) identity_mat3 (1, 0, 0) 1
      [OtherModel ()] [example_tie_point]
    = (Some (ArgumentErr ''A pinhole camera expected.''), [OtherModel ()], [example_tie_point]) \<and>
   cp_position example_tie_point \<noteq> vec3_add (mat_vec (scalar_mat 1 identity_mat3) (cp_position example_tie_point)) (1, 0, 0)"
  by (simp add: apply_rigid_transform_def example_tie_point_def identity_mat3_def vec3_add_def mat_vec_def scalar_mat_def)

lemma norm_2_x: "norm_2 (x, 0, 0) = \<bar>x\<bar>"
  by (simp add: norm_2_def)

text \<open>
  Claim C6 at the example network: the two ground control points have their centroid at
  \<open>(600000, 0, 0)\<close>, 150 km from the triangulated tie point at \<open>(450000, 0, 0)\<close>, and
  \<open>check_gcp_dists\<close> prints no warning. The second loop increments \<open>gcp_count\<close> while it
  adds up the mean, so it adds \<open>600000 / 2 + 600000 / 3 = 500000\<close>, 50 km from the tie
  point.
\<close>

theorem check_gcp_dists_misses_far_gcps:
  "check_gcp_dists stored_position () example_cnet 0 = False \<and>
   centroid [cp_position example_gcp, cp_position example_gcp] = (600000, 0, 0) \<and>
   centroid [snd (stored_position example_tie_point () 0 0)] = (450000, 0, 0) \<and>
   norm_2 (vec3_sub (centroid [snd (stored_position example_tie_point () 0 0)])
                    (centroid [cp_position example_gcp, cp_position example_gcp])) > 100000"
proof -
  have c: "count_gcp_ip stored_position () 0 example_cnet = (2, 1)"
    by (simp add: count_gcp_ip_def example_cnet_def example_gcp_def example_tie_point_def
        stored_position_def vec3_zero_def)
  have m: "mean_gcp_ip stored_position () 0 example_cnet 2 1 = ((500000, 0, 0), (450000, 0, 0), 4)"
    by (simp add: mean_gcp_ip_def example_cnet_def example_gcp_def example_tie_point_def
        stored_position_def vec3_zero_def vec3_add_def vec3_div_def)
  have 1: "check_gcp_dists stored_position () example_cnet 0 = False"
    by (simp add: check_gcp_dists_def c m vec3_sub_def norm_2_x)
  have 2: "centroid [cp_position example_gcp, cp_position example_gcp] = (600000, 0, 0)"
    by (simp add: centroid_def example_gcp_def vec3_add_def vec3_div_def vec3_zero_def)
  have 3: "centroid [snd (stored_position example_tie_point () 0 0)] = (450000, 0, 0)"
    by (simp add: centroid_def example_tie_point_def stored_position_def vec3_add_def vec3_div_def vec3_zero_def)
  show ?thesis
    unfolding 2 3 using 1 by (simp add: vec3_sub_def norm_2_x)
qed

section \<open>Initial transform of CSM cameras: results\<close>

lemma det4_affine:
  assumes "last_row M = (0, 0, 0, 1)"
  shows "det4 M = det3 (linear_part M)"
  using assms by (auto simp: det4_def last_row_def linear_part_def split: prod.splits)

lemma one_third_double: "ddiv 1 3 = 6004799503160661 / 2 ^ 54"
  unfolding ddiv_def by (rule to_double_one_third)

lemma one_third_not_integer: "of_int \<lfloor>ddiv 1 3\<rfloor> \<noteq> ddiv 1 3"
proof -
  have "\<lfloor>6004799503160661 / 2 ^ 54 :: real\<rfloor> = 0"
    by (rule floor_unique) simp_all
  then show ?thesis unfolding one_third_double by simp
qed

lemma c_pow_one_third:
  "c_pow pow_fn x (ddiv 1 3) = (if x < 0 then None else Some (pow_fn x (ddiv 1 3)))"
  using one_third_not_integer by (simp add: c_pow_def)

text \<open>
  The correctly rounded \<open>pow(8, 1.0/3.0)\<close> is 2: three times the double \<open>1.0/3.0\<close> is
  \<open>1 - 2^-54\<close>, and \<open>2^(1 - 2^-54)\<close> lies in the upper half of the last double interval below 2.
\<close>

lemma pow_8_one_third: "to_double (8 powr ddiv 1 3) = 2"
proof -
  define v :: real where "v = 2 powr (1 - 1 / 2 ^ 54)"
  have "(8::real) powr ddiv 1 3 = (2 powr 3) powr (6004799503160661 / 2 ^ 54)"
    unfolding one_third_double by simp
  also have "\<dots> = 2 powr (3 * (6004799503160661 / 2 ^ 54))"
    by (rule powr_powr)
  also have "3 * (6004799503160661 / 2 ^ 54) = (1 - 1 / 2 ^ 54 :: real)"
    by simp
  finally have v: "(8::real) powr ddiv 1 3 = v" by (simp add: v_def)
  have hi: "v < 2"
  proof -
    have "v < 2 powr 1" unfolding v_def by (rule powr_less_mono) simp_all
    then show ?thesis by simp
  qed
  have l2: "ln (2::real) \<le> 1"
    using ln_add_one_self_le_self [of "1::real"] by simp
  have "1 + (- (1 / 2 ^ 54) * ln 2) \<le> exp (- (1 / 2 ^ 54) * ln (2::real))"
    by (rule exp_ge_add_one_self)
  moreover have "- (1 / 2 ^ 54) * ln (2::real) \<ge> - (1 / 2 ^ 54)"
    using l2 by (simp add: field_simps)
  ultimately have "1 - 1 / 2 ^ 54 \<le> exp (- (1 / 2 ^ 54) * ln (2::real))"
    by linarith
  also have "\<dots> = 2 powr (- (1 / 2 ^ 54))"
    by (simp add: powr_def)
  finally have e: "1 - 1 / 2 ^ 54 \<le> (2::real) powr (- (1 / 2 ^ 54))" .
  have "v = 2 powr (1 + - (1 / 2 ^ 54))"
    unfolding v_def by simp
  also have "\<dots> = 2 powr 1 * 2 powr (- (1 / 2 ^ 54))"
    by (rule powr_add)
  finally have v2: "v = 2 * 2 powr (- (1 / 2 ^ 54))" by simp
  have lo: "2 - 1 / 2 ^ 53 \<le> v"
    unfolding v2 using e by simp
  have ev: "to_double v = 2 powr of_int (0 - 52) * of_int (round_half_even (v / 2 powr of_int (0 - 52)))"
  proof (rule to_double_eval)
    show "2 powr of_int 0 \<le> \<bar>v\<bar>" using lo by simp
    show "\<bar>v\<bar> < 2 powr of_int (0 + 1)" using lo hi by simp
    show "- 1022 \<le> (0::int)" by simp
  qed
  have p: "(2::real) powr of_int (0 - 52) = 1 / 2 ^ 52"
    by (simp add: powr_minus field_simps)
  have q: "v / (1 / 2 ^ 52) = v * 2 ^ 52" by simp
  have lo': "2 ^ 53 - 1 / 2  \<le> v * 2 ^ 52" using lo by simp
  have hi': "v * 2 ^ 52 < 2 ^ 53" using hi by simp
  have fl: "\<lfloor>v * 2 ^ 52\<rfloor> = 2 ^ 53 - 1"
    by (rule floor_unique) (use lo' hi' in simp_all)
  have odd: "\<not> even (2 ^ 53 - 1 :: int)" by simp
  have r: "round_half_even (v * 2 ^ 52) = 2 ^ 53"
    unfolding round_half_even_def Let_def fl using lo' odd by simp
  show ?thesis unfolding v ev p q r by simp
qed

lemma pow_1_one_third: "to_double (1 powr y) = 1"
  using to_double_of_int [of 1] by simp

lemma to_double_minus_one: "to_double (- 1) = - 1"
  using to_double_of_int [of "- 1"] by simp

text \<open>
  The scale test of \<open>init_cams\<close> for the CSM session, with \<open>d\<close> the double that
  \<open>vw::math::det\<close> returns for the transform and \<open>scale\<close> the double \<open>pow(d, 1.0/3.0)\<close>: if
  \<open>d\<close> is not negative and the double \<open>scale - 1.0\<close> is above the double \<open>1e-6\<close> in absolute
  value, \<open>init_cams\<close> throws the argument error; \<open>new_cam_models\<close> is untouched, the
  transform is not applied, and the parameters are left zeroed and with the adjustments
  of a previous run, if any. In every other case, among them every negative \<open>d\<close>, the
  transform is applied to the parameters and the corrected cameras are built. It is
  assumed that the call gets as far as the transform: a transform file is given, the
  number of cameras fits and reading earlier adjustments did not throw.
\<close>

lemma init_cams_csm_scale:
  assumes "stereo_session opt = ''csm''"
    and "initial_transform_file \<noteq> []"
    and "num_cameras calls (init_cams_as_zero calls param_storage) = length (camera_models opt)"
    and "params_before_transform calls opt param_storage = (None, ps)"
    and "d = vw_det calls initial_transform"
    and "scale = libm_pow calls d (ddiv 1 3)"
  shows "(0 \<le> d \<and> \<bar>dsub scale 1\<bar> > to_double (1 / 10 ^ 6) \<longrightarrow>
            init_cams calls opt param_storage initial_transform_file initial_transform new_cam_models
              = (Inl (ArgumentErr csm_scale_msg), ps, new_cam_models)) \<and>
         (d < 0 \<or> \<bar>dsub scale 1\<bar> \<le> to_double (1 / 10 ^ 6) \<longrightarrow>
            init_cams calls opt param_storage initial_transform_file initial_transform new_cam_models
              = (case apply_transform_to_params calls initial_transform ps (camera_models opt) of
                   (Some e, ps') \<Rightarrow> (Inl e, ps', new_cam_models)
                 | (None, ps') \<Rightarrow> (Inr True, ps', create_corrected_cameras calls (camera_models opt) ps')))"
proof -
  have sc: "scale_differs_from_one calls initial_transform
              \<longleftrightarrow> 0 \<le> d \<and> \<bar>dsub scale 1\<bar> > to_double (1 / 10 ^ 6)"
    unfolding scale_differs_from_one_def c_pow_one_third assms(5) [symmetric]
    by (simp add: assms(6))
  have ps: "(if input_prefix opt \<noteq> [] then
               (case put_adjustments_in_params calls (input_prefix opt) (image_files opt)
                       (camera_files opt) (init_cams_as_zero calls param_storage) of
                  (e, ps) \<Rightarrow> (e, ps, True))
             else (None, init_cams_as_zero calls param_storage, False))
            = (None, ps, input_prefix opt \<noteq> [])"
    using assms(4) by (simp add: params_before_transform_def split: if_splits)
  have "init_cams calls opt param_storage initial_transform_file initial_transform new_cam_models
          = (if scale_differs_from_one calls initial_transform then
               (Inl (ArgumentErr csm_scale_msg), ps, new_cam_models)
             else
               (case apply_transform_to_params calls initial_transform ps (camera_models opt) of
                  (Some e, ps') \<Rightarrow> (Inl e, ps', new_cam_models)
                | (None, ps') \<Rightarrow> (Inr True, ps', create_corrected_cameras calls (camera_models opt) ps')))"
    unfolding init_cams_def Let_def ps using assms(1,2,3) by simp
  then show ?thesis unfolding sc by auto
qed

lemma init_cams_csm_scale_examples:
  "init_cams example_calls example_options [5, 6] ''transform.txt'' (scale_by 2) []
     = (Inl (ArgumentErr csm_scale_msg), [0, 0], []) \<and>
   init_cams example_calls example_options [5, 6] ''transform.txt'' (scale_by 1) []
     = (Inr True, [1, 1], [(), ()])"
proof -
  have h1: "stereo_session example_options = ''csm''"
    by (simp add: example_options_def)
  have h2: "''transform.txt'' \<noteq> []" by simp
  have h3: "num_cameras example_calls (init_cams_as_zero example_calls [5, 6])
              = length (camera_models example_options)"
    by (simp add: example_options_def example_calls_def)
  have h4: "params_before_transform example_calls example_options [5, 6] = (None, [0, 0])"
    by (simp add: params_before_transform_def example_options_def example_calls_def)
  have d2: "8 = vw_det example_calls (scale_by 2)"
    by (simp add: example_calls_def det4_def det3_def scale_by_def)
  have d1: "1 = vw_det example_calls (scale_by 1)"
    by (simp add: example_calls_def det4_def det3_def scale_by_def)
  have "libm_pow example_calls x y = to_double (x powr y)" for x y
    by (simp add: example_calls_def)
  then have p2: "2 = libm_pow example_calls 8 (ddiv 1 3)"
    and p1: "1 = libm_pow example_calls 1 (ddiv 1 3)"
    using pow_8_one_third pow_1_one_third [of "ddiv 1 3"] by presburger+
  have tol: "to_double (1 / 10 ^ 6) = 4722366482869645 / 2 ^ 72"
    by (rule to_double_1e_6)
  have s2: "dsub 2 1 = 1" and s1: "dsub 1 1 = 0"
    using to_double_of_int [of 1] to_double_of_int [of 0] by (simp_all add: dsub_def)
  have g2: "0 \<le> (8::real) \<and> \<bar>dsub 2 1\<bar> > to_double (1 / 10 ^ 6)"
    unfolding s2 tol by simp
  have g1: "(1::real) < 0 \<or> \<bar>dsub 1 1\<bar> \<le> to_double (1 / 10 ^ 6)"
    unfolding s1 tol by simp
  have ap: "apply_transform_to_params example_calls (scale_by 1) [0, 0 :: real]
              (camera_models example_options) = (None, [1, 1])"
    by (simp add: example_calls_def)
  have cc: "create_corrected_cameras example_calls (camera_models example_options) [1, 1 :: real]
              = [(), ()]"
    by (simp add: example_calls_def example_options_def)
  have a: "init_cams example_calls example_options [5, 6] ''transform.txt'' (scale_by 2) []
     = (Inl (ArgumentErr csm_scale_msg), [0, 0], [])"
    using init_cams_csm_scale [OF h1 h2 h3 h4 d2 p2, of "[]"] g2 by blast
  have b: "init_cams example_calls example_options [5, 6] ''transform.txt'' (scale_by 1) []
     = (Inr True, [1, 1], [(), ()])"
    using init_cams_csm_scale [OF h1 h2 h3 h4 d1 p1, of "[]"] g1
    by (simp add: ap cc)
  show ?thesis using a b by (rule conjI)
qed


end
